theory Spec2Isabelle
  imports Complex_Main
begin

section \<open>Errors and generators\<close>

text \<open>
  The exceptions the converter module can end with.  \<open>UnrecognizedFormat\<close> is the
  module's own \<^verbatim>\<open>raise Exception('ERROR: unrecognized file format: ...')\<close>; the others are
  raised by Python or by the libraries the module calls.
\<close>

datatype error =
    UnrecognizedFormat string
  | IndexError
  | KeyError
  | ValueError
  | ZeroDivisionError
  | AttributeError
  | ToolError

text \<open>
  A Python generator that is consumed to its end: the items it yielded, in order, and the
  exception that ended it, if one did.
\<close>

type_synonym 'a gen = "'a list \<times> error option"

section \<open>Reading molecule files: \<^verbatim>\<open>mol_file_to_iterable\<close>\<close>

text \<open>Python's \<^verbatim>\<open>str.strip()\<close>: whitespace is removed at both ends.\<close>

definition is_space :: "char \<Rightarrow> bool" where
  "is_space c = (c \<in> set [CHR '' '', CHR 0x09, CHR 0x0A, CHR 0x0B, CHR 0x0C, CHR 0x0D])"

definition strip :: "string \<Rightarrow> string" where
  "strip s = rev (dropWhile is_space (rev (dropWhile is_space s)))"

definition is_terminator :: "string \<Rightarrow> bool" where
  "is_terminator line = (strip line = ''$$$$'')"

text \<open>
  The body of the \<^verbatim>\<open>sdf\<close> branch: \<open>s\<close> is the accumulator string, the list is what
  is left of the file's lines.
  \<^verbatim>\<open>
    s = ''
    for line in f:
        if line.strip() != '$$$$':
            s = s + line
        else:
            return_value = s + line
            s = ''
            yield return_value
  \<close>
\<close>

fun sdf_loop :: "string \<Rightarrow> string list \<Rightarrow> string list" where
  "sdf_loop s [] = []"
| "sdf_loop s (line # rest) =
     (if strip line \<noteq> ''$$$$'' then sdf_loop (s @ line) rest
      else (s @ line) # sdf_loop [] rest)"

text \<open>The file is given by its lines, as iterating over the open file gives them.\<close>

definition mol_file_to_iterable :: "string list \<Rightarrow> string \<Rightarrow> string gen" where
  "mol_file_to_iterable f file_format =
     (if file_format = ''sdf'' then (sdf_loop [] f, None)
      else if file_format = ''smi'' then (f, None)
      else ([], Some (UnrecognizedFormat file_format)))"

section \<open>Molecules\<close>

text \<open>
  What the module reads of a pybel molecule.  Iterating over a molecule gives its atoms in
  order and \<^verbatim>\<open>atom.idx\<close> is the 1-based position of the atom, so an atom's index is its
  position in \<open>atoms\<close> plus one and is not stored.  \<open>mol_str\<close> is \<^verbatim>\<open>str(mol)\<close> and
  \<open>cid\<close> is \<^verbatim>\<open>mol.data['PUBCHEM_COMPOUND_CID']\<close> when the record has that field.
\<close>

type_synonym coord = "real \<times> real \<times> real"

record atom =
  atomicnum :: int
  atype :: string
  coords :: coord

record bond =
  begin_atom_idx :: int
  end_atom_idx :: int
  bond_order :: string

record molecule =
  atoms :: "atom list"
  bonds :: "bond list"
  mol_str :: string
  cid :: "string option"

text \<open>
  The keyword arguments \<^verbatim>\<open>**kwargs\<close> that the 3D functions read, each with the default its
  \<^verbatim>\<open>kwargs.get\<close> gives; the field \<open>kw_x\<close> is \<^verbatim>\<open>kwargs.get('x', default)\<close>.  \<open>n_conf\<close>,
  \<open>k\<close> and \<open>n_intervals\<close> are Python integers.
\<close>

record options =
  kw_n_conf :: int
  kw_method :: string
  kw_atom_types :: "int list"
  kw_similarity_fn :: "real \<Rightarrow> real"
  kw_k :: int
  kw_threshold :: real
  kw_max_dist :: real
  kw_n_intervals :: int

definition default_options :: options where
  "default_options =
     \<lparr> kw_n_conf = 1, kw_method = ''metric'',
       kw_atom_types = [1, 2, 8, 6, 10, 26, 7, 14, 12, 16],
       kw_similarity_fn = (\<lambda>x. 1 / (x + 1)),
       kw_k = 3, kw_threshold = 0, kw_max_dist = 10, kw_n_intervals = 20 \<rparr>"

section \<open>The pairwise distance matrix\<close>

definition euclidean :: "coord \<Rightarrow> coord \<Rightarrow> real" where
  "euclidean p q =
     (case p of (x1, y1, z1) \<Rightarrow> case q of (x2, y2, z2) \<Rightarrow>
        sqrt ((x1 - x2)\<^sup>2 + (y1 - y2)\<^sup>2 + (z1 - z2)\<^sup>2))"

text \<open>
  \<^verbatim>\<open>scipy.spatial.distance.pdist(np.asarray(coords))\<close>: the condensed distance vector, the
  distance of every pair \<open>i < j\<close> of rows, row by row.  \<^verbatim>\<open>pdist\<close> wants a 2-dimensional
  array and raises \<^verbatim>\<open>ValueError\<close> otherwise; \<^verbatim>\<open>np.asarray([])\<close>, the array of a molecule
  without atoms, is 1-dimensional.
\<close>

definition pdist :: "coord list \<Rightarrow> error + real list" where
  "pdist X =
     (if X = [] then Inl ValueError
      else Inr (concat (map (\<lambda>i. map (\<lambda>j. euclidean (X ! i) (X ! j)) [Suc i..<length X])
                            [0..<length X])))"

text \<open>
  Position of the pair \<open>i < j\<close> in the condensed vector of \<open>d\<close> points.
\<close>

definition condensed_index :: "nat \<Rightarrow> nat \<Rightarrow> nat \<Rightarrow> nat" where
  "condensed_index d i j = (\<Sum>r\<leftarrow>[0..<i]. d - Suc r) + (j - Suc i)"

text \<open>
  \<^verbatim>\<open>scipy.spatial.distance.squareform\<close> on a vector: the dimension \<open>d\<close> is the one with
  \<open>d * (d - 1) = 2 * len(v)\<close> (\<^verbatim>\<open>ValueError\<close> when there is none; the empty vector gives
  the 1 by 1 zero matrix), the diagonal is zero and the vector's entry of the pair
  \<open>i < j\<close> is written at \<open>(i, j)\<close> and at \<open>(j, i)\<close>.
\<close>

definition squareform :: "real list \<Rightarrow> error + real list list" where
  "squareform v =
     (case find (\<lambda>d. d * (d - 1) = 2 * length v) [1..<length v + 2] of
        None \<Rightarrow> Inl ValueError
      | Some d \<Rightarrow>
          Inr (map (\<lambda>i. map (\<lambda>j. if i = j then 0
                                   else v ! condensed_index d (min i j) (max i j))
                             [0..<d])
                   [0..<d]))"

text \<open>
  \<^verbatim>\<open>
    coords = []
    for atom in input_mol:
        coords.append(atom.coords)
    coords = np.asarray(coords)
    distances = scipy.spatial.distance.squareform(
        scipy.spatial.distance.pdist(coords))
  \<close>
\<close>

definition distance_matrix :: "molecule \<Rightarrow> error + real list list" where
  "distance_matrix input_mol =
     (case pdist (map coords (atoms input_mol)) of
        Inl e \<Rightarrow> Inl e
      | Inr v \<Rightarrow> squareform v)"

section \<open>Nearest neighbours: \<^verbatim>\<open>find_nearest_neighbors\<close>\<close>

text \<open>
  Indexing a numpy array or a Python list with an integer: a negative index counts from
  the end, an index out of range raises \<^verbatim>\<open>IndexError\<close>.
\<close>

definition np_index :: "'a list \<Rightarrow> int \<Rightarrow> error + 'a" where
  "np_index xs i =
     (let n = int (length xs); j = (if i < 0 then i + n else i)
      in if 0 \<le> j \<and> j < n then Inr (xs ! nat j) else Inl IndexError)"

text \<open>
  \<^verbatim>\<open>np.argsort(row)\<close>: the positions of the row, by ascending value.  (The order numpy
  gives to positions of equal value is not fixed; here they keep their order.)
\<close>

definition argsort :: "real list \<Rightarrow> nat list" where
  "argsort row = sort_key (\<lambda>i. row ! i) [0..<length row]"

text \<open>The slice \<^verbatim>\<open>xs[:k]\<close>; a negative \<open>k\<close> counts from the end.\<close>

definition slice_to :: "'a list \<Rightarrow> int \<Rightarrow> 'a list" where
  "slice_to xs k = take (nat (if k < 0 then int (length xs) + k else k)) xs"

text \<open>\<^verbatim>\<open>1e10\<close>, the distance given to a missing neighbour, and \<^verbatim>\<open>np.spacing(1e10)\<close>.\<close>

definition large_distance :: real where
  "large_distance = 10 ^ 10"

definition spacing_large_distance :: real where
  "spacing_large_distance = 1 / 2 ^ 19"

text \<open>The 0-based positions of the atoms with atomic number \<open>a\<close>, in the molecule's order.\<close>

definition atoms_of_type :: "molecule \<Rightarrow> int \<Rightarrow> nat list" where
  "atoms_of_type mol a = filter (\<lambda>i. atomicnum (atoms mol ! i) = a) [0..<length (atoms mol)]"

text \<open>
  \<^verbatim>\<open>atom_idx = [atom.idx for atom in mol if atom.atomicnum == atomic_no]\<close>
\<close>

definition atom_idx_of :: "molecule \<Rightarrow> int \<Rightarrow> int list" where
  "atom_idx_of mol atomic_no =
     map (\<lambda>i. int i + 1) (filter (\<lambda>i. atomicnum (atoms mol ! i) = atomic_no)
                                   [0..<length (atoms mol)])"

text \<open>
  One round of the loop over \<open>atom_types\<close>: the list appended to \<^verbatim>\<open>nearest_atoms\<close>.
  \<^verbatim>\<open>
    if len(atom_idx) >= k:
        nearest_atoms.append(
            [id for id in sorted_indices if id + 1 in atom_idx][:k])
    else:
        nearest_atoms.append(
            [id for id in sorted_indices if id + 1 in atom_idx] +
            [None] * (k - len(atom_idx)))
  \<close>
\<close>

definition nearest_of_type :: "molecule \<Rightarrow> nat list \<Rightarrow> int \<Rightarrow> int \<Rightarrow> nat option list" where
  "nearest_of_type mol sorted_indices k atomic_no =
     (let atom_idx = atom_idx_of mol atomic_no;
          found = map Some (filter (\<lambda>id. int id + 1 \<in> set atom_idx) sorted_indices)
      in if int (length atom_idx) \<ge> k then slice_to found k
         else found @ replicate (nat (k - int (length atom_idx))) None)"

text \<open>
  The three list comprehensions that end the function, applied to one entry: the index
  becomes a distance, the threshold filter, the similarity function.
\<close>

definition to_distance :: "real list \<Rightarrow> nat option \<Rightarrow> real" where
  "to_distance row i = (case i of Some j \<Rightarrow> row ! j | None \<Rightarrow> large_distance)"

definition apply_threshold :: "real \<Rightarrow> real \<Rightarrow> real" where
  "apply_threshold t x = (if t > 0 then (if x \<le> t then x else large_distance) else x)"

definition apply_similarity :: "(real \<Rightarrow> real) \<Rightarrow> real \<Rightarrow> real" where
  "apply_similarity f x = (if f x > spacing_large_distance then f x else 0)"

definition find_nearest_neighbors ::
  "molecule \<Rightarrow> real list list \<Rightarrow> int \<Rightarrow> options \<Rightarrow> error + real list" where
  "find_nearest_neighbors mol distances current_idx kwargs =
     (case np_index distances (current_idx - 1) of
        Inl e \<Rightarrow> Inl e
      | Inr row \<Rightarrow>
          (let sorted_indices = argsort row;
               nearest_atoms =
                 concat (map (nearest_of_type mol sorted_indices (kw_k kwargs)) (kw_atom_types kwargs))
           in Inr (map (apply_similarity (kw_similarity_fn kwargs))
                    (map (apply_threshold (kw_threshold kwargs))
                      (map (to_distance row) nearest_atoms)))))"

section \<open>Radial density: \<^verbatim>\<open>calculate_local_density\<close>\<close>

text \<open>
  \<^verbatim>\<open>np.linspace(start, stop, num)\<close>: \<open>num\<close> evenly spaced values, the last one set to
  \<open>stop\<close>; one value gives \<open>[start]\<close>, a negative \<open>num\<close> raises \<^verbatim>\<open>ValueError\<close>.
\<close>

definition linspace :: "real \<Rightarrow> real \<Rightarrow> int \<Rightarrow> error + real list" where
  "linspace start stop num =
     (if num < 0 then Inl ValueError
      else if num = 1 then Inr [start]
      else Inr (map (\<lambda>i. if Suc i = nat num then stop
                          else start + real i * ((stop - start) / real_of_int (num - 1)))
                    [0..<nat num]))"

text \<open>
  \<^verbatim>\<open>
    thresholds = np.linspace(0, max_dist, n_intervals)
    mol_size = len(mol.atoms)
    density_values = []
    current_distances = distances[current_idx - 1, ]
    for t in thresholds:
        density_values.append(
            len([x for x in current_distances if x <= t]) / float(mol_size))
    return density_values
  \<close>
  The division raises \<^verbatim>\<open>ZeroDivisionError\<close> in the first round when the molecule has no
  atoms.
\<close>

definition calculate_local_density ::
  "molecule \<Rightarrow> real list list \<Rightarrow> int \<Rightarrow> options \<Rightarrow> error + real list" where
  "calculate_local_density mol distances current_idx kwargs =
     (case linspace 0 (kw_max_dist kwargs) (kw_n_intervals kwargs) of
        Inl e \<Rightarrow> Inl e
      | Inr thresholds \<Rightarrow>
          (let mol_size = length (atoms mol) in
           case np_index distances (current_idx - 1) of
             Inl e \<Rightarrow> Inl e
           | Inr current_distances \<Rightarrow>
               if thresholds \<noteq> [] \<and> mol_size = 0 then Inl ZeroDivisionError
               else Inr (map (\<lambda>t. real (length (filter (\<lambda>x. x \<le> t) current_distances))
                                     / real mol_size)
                              thresholds)))"

section \<open>Graphs\<close>

text \<open>
  What the module uses of a networkx \<^verbatim>\<open>Graph\<close>: the graph attribute \<^verbatim>\<open>info\<close>, the nodes
  with their attribute dictionaries and the edges with theirs.  A dictionary is an
  association list with one entry per key.
\<close>

datatype attr = Str string | Vec "real list" | Num int

type_synonym attrs = "(string \<times> attr) list"

record graph =
  g_info :: "string option"
  g_nodes :: "(int \<times> attrs) list"
  g_edges :: "((int \<times> int) \<times> attrs) list"

definition empty_graph :: graph where
  "empty_graph = \<lparr> g_info = None, g_nodes = [], g_edges = [] \<rparr>"

text \<open>\<^verbatim>\<open>len(graph)\<close>: the number of nodes.\<close>

definition len_graph :: "graph \<Rightarrow> nat" where
  "len_graph G = length (g_nodes G)"

text \<open>\<^verbatim>\<open>d[key] = v\<close>\<close>

fun dict_set :: "'a \<Rightarrow> 'b \<Rightarrow> ('a \<times> 'b) list \<Rightarrow> ('a \<times> 'b) list" where
  "dict_set key v [] = [(key, v)]"
| "dict_set key v ((key', v') # d) =
     (if key' = key then (key, v) # d else (key', v') # dict_set key v d)"

text \<open>\<^verbatim>\<open>d.update(other)\<close>\<close>

definition dict_update :: "('a \<times> 'b) list \<Rightarrow> ('a \<times> 'b) list \<Rightarrow> ('a \<times> 'b) list" where
  "dict_update other d = fold (\<lambda>(key, v). dict_set key v) other d"

text \<open>\<^verbatim>\<open>graph.add_node(n, **a)\<close>: a new node, or new attributes for a node there is.\<close>

definition add_node :: "graph \<Rightarrow> int \<Rightarrow> attrs \<Rightarrow> graph" where
  "add_node G n a =
     (case map_of (g_nodes G) n of
        None \<Rightarrow> G\<lparr>g_nodes := g_nodes G @ [(n, a)]\<rparr>
      | Some old \<Rightarrow> G\<lparr>g_nodes := dict_set n (dict_update a old) (g_nodes G)\<rparr>)"

text \<open>\<^verbatim>\<open>graph.node[n][key] = v\<close>; \<^verbatim>\<open>KeyError\<close> when the graph has no node \<open>n\<close>.\<close>

definition set_node_attr :: "graph \<Rightarrow> int \<Rightarrow> string \<Rightarrow> attr \<Rightarrow> error + graph" where
  "set_node_attr G n key v =
     (case map_of (g_nodes G) n of
        None \<Rightarrow> Inl KeyError
      | Some old \<Rightarrow> Inr (G\<lparr>g_nodes := dict_set n (dict_set key v old) (g_nodes G)\<rparr>))"

text \<open>
  \<^verbatim>\<open>graph.add_edge(u, v, **a)\<close>: the end points become nodes when they are none yet; the
  graph is undirected, so an edge between the two nodes in either direction is the same
  edge and gets the new attributes.
\<close>

definition add_edge :: "graph \<Rightarrow> int \<Rightarrow> int \<Rightarrow> attrs \<Rightarrow> graph" where
  "add_edge G u v a =
     (let G1 = (if map_of (g_nodes G) u = None then add_node G u [] else G);
          G2 = (if map_of (g_nodes G1) v = None then add_node G1 v [] else G1)
      in case map_of (g_edges G2) (u, v) of
           Some old \<Rightarrow> G2\<lparr>g_edges := dict_set (u, v) (dict_update a old) (g_edges G2)\<rparr>
         | None \<Rightarrow>
             (case map_of (g_edges G2) (v, u) of
                Some old \<Rightarrow> G2\<lparr>g_edges := dict_set (v, u) (dict_update a old) (g_edges G2)\<rparr>
              | None \<Rightarrow> G2\<lparr>g_edges := g_edges G2 @ [((u, v), a)]\<rparr>))"

text \<open>
  \<^verbatim>\<open>nx.convert_node_labels_to_integers(G, first_label)\<close>: the nodes are numbered from
  \<open>first_label\<close> in their order, the edges follow.
\<close>

definition relabel :: "int \<Rightarrow> graph \<Rightarrow> graph" where
  "relabel first_label G =
     (let mapping = zip (map fst (g_nodes G))
                        (map (\<lambda>p. first_label + int p) [0..<length (g_nodes G)]);
          f = (\<lambda>n. case map_of mapping n of Some n' \<Rightarrow> n' | None \<Rightarrow> n)
      in G\<lparr>g_nodes := map (\<lambda>(n, a). (f n, a)) (g_nodes G),
            g_edges := map (\<lambda>((u, v), a). ((f u, f v), a)) (g_edges G)\<rparr>)"

text \<open>
  \<^verbatim>\<open>nx.disjoint_union(G, H)\<close>: both graphs are renumbered, \<open>G\<close> from 0 and \<open>H\<close> from
  \<open>len(G)\<close>, and united; of the graph attributes those of \<open>H\<close> win.
\<close>

definition disjoint_union :: "graph \<Rightarrow> graph \<Rightarrow> graph" where
  "disjoint_union G H =
     (let R1 = relabel 0 G; R2 = relabel (int (len_graph R1)) H
      in \<lparr> g_info = (case g_info R2 of Some i \<Rightarrow> Some i | None \<Rightarrow> g_info R1),
           g_nodes = g_nodes R1 @ g_nodes R2,
           g_edges = g_edges R1 @ g_edges R2 \<rparr>)"

section \<open>Building the graph of one molecule\<close>

text \<open>Sequencing of steps that may raise, and a loop of such steps over a list.\<close>

definition bind_err :: "error + 'a \<Rightarrow> ('a \<Rightarrow> error + 'b) \<Rightarrow> error + 'b" where
  "bind_err r f = (case r of Inl e \<Rightarrow> Inl e | Inr x \<Rightarrow> f x)"

fun fold_err :: "('a \<Rightarrow> 's \<Rightarrow> error + 's) \<Rightarrow> 'a list \<Rightarrow> 's \<Rightarrow> error + 's" where
  "fold_err step [] s = Inr s"
| "fold_err step (x # xs) s =
     (case step x s of Inl e \<Rightarrow> Inl e | Inr s' \<Rightarrow> fold_err step xs s')"

text \<open>\<^verbatim>\<open>str(n)\<close> for an integer.\<close>

fun str_nat :: "nat \<Rightarrow> string" where
  "str_nat n =
     (if n < 10 then [''0123456789'' ! n]
      else str_nat (n div 10) @ [''0123456789'' ! (n mod 10)])"

definition str_int :: "int \<Rightarrow> string" where
  "str_int i = (if i < 0 then CHR ''-'' # str_nat (nat (- i)) else str_nat (nat i))"

text \<open>
  The bond loop, the same in both builders:
  \<^verbatim>\<open>
    for bond in ob.OBMolBondIter(mol.OBMol):
        label = str(bond.GetBO())
        graph.add_edge(
            bond.GetBeginAtomIdx() - 1, bond.GetEndAtomIdx() - 1, label=label)
  \<close>
  \<open>bond_order\<close> is \<^verbatim>\<open>str(bond.GetBO())\<close>.
\<close>

definition add_bond :: "bond \<Rightarrow> graph \<Rightarrow> graph" where
  "add_bond b G =
     add_edge G (begin_atom_idx b - 1) (end_atom_idx b - 1) [(''label'', Str (bond_order b))]"

text \<open>
  \<^verbatim>\<open>obabel_to_networkx\<close>, the builder of the 2D path:
  \<^verbatim>\<open>
    graph = nx.Graph()
    for atom in mol:
        node_id = atom.idx - 1
        label = str(atom.type)
        graph.add_node(node_id, label=label)
    (the bond loop)
    return graph
  \<close>
\<close>

definition obabel_to_networkx :: "molecule \<Rightarrow> graph" where
  "obabel_to_networkx mol =
     (let G = fold (\<lambda>p G. add_node G (int p) [(''label'', Str (atype (atoms mol ! p)))])
                   [0..<length (atoms mol)] empty_graph
      in fold add_bond (bonds mol) G)"

text \<open>
  One round of the atom loop of \<^verbatim>\<open>obabel_to_networkx3d\<close>, for the atom at position \<open>p\<close>
  (its \<^verbatim>\<open>atom.idx\<close> is \<open>p + 1\<close>):
  \<^verbatim>\<open>
    atomic_no = str(atom.atomicnum)
    atom_type = str(atom.type)
    node_id = atom.idx - 1
    graph.add_node(node_id)
    if method == "metric":
        graph.node[node_id]['label'] = find_nearest_neighbors(
            input_mol, distances, atom.idx, **kwargs)
    elif method == "topological":
        graph.node[node_id]['label'] = calculate_local_density(
            input_mol, distances, atom.idx, **kwargs)
    graph.node[node_id]['discrete_label'] = atomic_no
    graph.node[node_id]['atom_type'] = atom_type
    graph.node[node_id]['ID'] = node_id
  \<close>
  There is no \<^verbatim>\<open>else\<close>: with another method the node gets no label.
\<close>

definition add_atom :: "molecule \<Rightarrow> real list list \<Rightarrow> options \<Rightarrow> nat \<Rightarrow> graph \<Rightarrow> error + graph" where
  "add_atom input_mol distances kwargs p G =
     (let atomic_no = str_int (atomicnum (atoms input_mol ! p));
          atom_type = atype (atoms input_mol ! p);
          node_id = int p;
          G0 = add_node G node_id []
      in bind_err
           (if kw_method kwargs = ''metric'' then
              bind_err (find_nearest_neighbors input_mol distances (int p + 1) kwargs)
                (\<lambda>l. set_node_attr G0 node_id ''label'' (Vec l))
            else if kw_method kwargs = ''topological'' then
              bind_err (calculate_local_density input_mol distances (int p + 1) kwargs)
                (\<lambda>l. set_node_attr G0 node_id ''label'' (Vec l))
            else Inr G0)
           (\<lambda>G1. bind_err (set_node_attr G1 node_id ''discrete_label'' (Str atomic_no))
           (\<lambda>G2. bind_err (set_node_attr G2 node_id ''atom_type'' (Str atom_type))
           (\<lambda>G3. set_node_attr G3 node_id ''ID'' (Num node_id)))))"

text \<open>
  \<^verbatim>\<open>obabel_to_networkx3d\<close>: the graph attribute \<^verbatim>\<open>info\<close>, the distance matrix, the atom
  loop, the bond loop.
\<close>

definition obabel_to_networkx3d :: "molecule \<Rightarrow> options \<Rightarrow> error + graph" where
  "obabel_to_networkx3d input_mol kwargs =
     (let G = empty_graph\<lparr>g_info := Some (strip (mol_str input_mol))\<rparr>
      in bind_err (distance_matrix input_mol)
           (\<lambda>distances.
              bind_err (fold_err (add_atom input_mol distances kwargs)
                                 [0..<length (atoms input_mol)] G)
                (\<lambda>G'. Inr (fold add_bond (bonds input_mol) G'))))"

section \<open>The collaborators outside the module\<close>

text \<open>
  The chemistry toolkit and the \<^verbatim>\<open>obabel\<close> binary, as the functions the module calls:
  \<^item> \<open>readstring_sdf\<close> and \<open>readstring_smi\<close> are \<^verbatim>\<open>pybel.readstring("sdf", s)\<close> and
    \<^verbatim>\<open>pybel.readstring("smi", s)\<close>, which raise on text they cannot parse;
  \<^item> \<open>removeh\<close> is \<^verbatim>\<open>mol.removeh()\<close>, \<open>write_sdf\<close> is \<^verbatim>\<open>mol.write("sdf")\<close>;
  \<^item> \<open>obabel_gen3d\<close> is \<^verbatim>\<open>subprocess.check_output\<close> on
    \<^verbatim>\<open>obabel -:"<smiles>" -osdf --gen3d\<close>, \<open>obabel_conformers\<close> is the same on the
    conformer command of \<^verbatim>\<open>generate_conformers\<close>; both raise when the process fails.
\<close>

record env =
  readstring_sdf :: "string \<Rightarrow> error + molecule"
  readstring_smi :: "string \<Rightarrow> error + molecule"
  removeh :: "molecule \<Rightarrow> molecule"
  write_sdf :: "molecule \<Rightarrow> string"
  obabel_gen3d :: "string \<Rightarrow> error + string"
  obabel_conformers :: "string \<Rightarrow> int \<Rightarrow> error + string"

section \<open>Generators\<close>

text \<open>
  One generator after another: when the first ends with an exception the second never
  runs.  \<open>gen_for body xs\<close> is the loop \<^verbatim>\<open>for x in xs: body\<close> whose body yields.
\<close>

definition gen_append :: "'a gen \<Rightarrow> 'a gen \<Rightarrow> 'a gen" where
  "gen_append a b = (case snd a of Some e \<Rightarrow> a | None \<Rightarrow> (fst a @ fst b, snd b))"

fun gen_for :: "('a \<Rightarrow> 'b gen) \<Rightarrow> 'a list \<Rightarrow> 'b gen" where
  "gen_for body [] = ([], None)"
| "gen_for body (x # xs) = gen_append (body x) (gen_for body xs)"

section \<open>Strings\<close>

fun starts_with :: "string \<Rightarrow> string \<Rightarrow> bool" where
  "starts_with [] s = True"
| "starts_with (p # ps) [] = False"
| "starts_with (p # ps) (c # cs) = (p = c \<and> starts_with ps cs)"

text \<open>\<^verbatim>\<open>pat in s\<close>\<close>

fun contains :: "string \<Rightarrow> string \<Rightarrow> bool" where
  "contains pat [] = (pat = [])"
| "contains pat (c # cs) = (starts_with pat (c # cs) \<or> contains pat cs)"

text \<open>\<^verbatim>\<open>s.split('\n')\<close> and \<^verbatim>\<open>'\n'.join(lines)\<close>\<close>

fun split_lines :: "string \<Rightarrow> string list" where
  "split_lines [] = [[]]"
| "split_lines (c # cs) =
     (if c = CHR 0x0A then [] # split_lines cs
      else (case split_lines cs of l # ls \<Rightarrow> (c # l) # ls | [] \<Rightarrow> [[c]]))"

fun join_lines :: "string list \<Rightarrow> string" where
  "join_lines [] = []"
| "join_lines [l] = l"
| "join_lines (l # ls) = l @ CHR 0x0A # join_lines ls"

text \<open>
  The pieces of the conformer output: a new piece starts at every \<^verbatim>\<open>OpenBabel\<close>
  (\<^verbatim>\<open>re.finditer('OpenBabel', clean_sdf)\<close>; the text starts with one).
\<close>

fun pieces :: "string \<Rightarrow> string \<Rightarrow> string list" where
  "pieces acc [] = [rev acc]"
| "pieces acc (c # cs) =
     (if starts_with ''OpenBabel'' (c # cs) \<and> acc \<noteq> [] then rev acc # pieces [c] cs
      else pieces (c # acc) cs)"

text \<open>The text from the first \<^verbatim>\<open>OpenBabel\<close> on (\<^verbatim>\<open>re.search\<close>), when there is one.\<close>

fun from_first_match :: "string \<Rightarrow> string option" where
  "from_first_match [] = None"
| "from_first_match (c # cs) =
     (if starts_with ''OpenBabel'' (c # cs) then Some (c # cs) else from_first_match cs)"

section \<open>\<^verbatim>\<open>generate_conformers\<close>\<close>

fun map_err :: "('a \<Rightarrow> error + 'b) \<Rightarrow> 'a list \<Rightarrow> error + 'b list" where
  "map_err f [] = Inr []"
| "map_err f (x # xs) =
     (case f x of Inl e \<Rightarrow> Inl e
      | Inr y \<Rightarrow> (case map_err f xs of Inl e \<Rightarrow> Inl e | Inr ys \<Rightarrow> Inr (y # ys)))"

text \<open>
  \<^verbatim>\<open>
    if n_conf == 0:
        return [pb.readstring("sdf", input_sdf)]
    sdf = subprocess.check_output(command_string, shell=True)
    first_match = re.search('OpenBabel', sdf)
    clean_sdf = sdf[first_match.start():]
    mols = []
    matches = list(re.finditer('OpenBabel', clean_sdf))
    for i in range(len(matches) - 1):
        mols.append(pb.readstring("sdf",
            '\n' + clean_sdf[matches[i].start():matches[i + 1].start()]))
    mols.append(pb.readstring("sdf", '\n' + clean_sdf[matches[-1].start():]))
    return mols
  \<close>
  Without a match \<^verbatim>\<open>first_match\<close> is \<^verbatim>\<open>None\<close> and \<^verbatim>\<open>first_match.start()\<close> raises.
\<close>

definition generate_conformers :: "env \<Rightarrow> string \<Rightarrow> int \<Rightarrow> error + molecule list" where
  "generate_conformers E input_sdf n =
     (if n = 0 then map_err (readstring_sdf E) [input_sdf]
      else bind_err (obabel_conformers E input_sdf n)
        (\<lambda>sdf. case from_first_match sdf of
                  None \<Rightarrow> Inl AttributeError
                | Some clean_sdf \<Rightarrow>
                    map_err (\<lambda>piece. readstring_sdf E (CHR 0x0A # piece))
                            (pieces [] clean_sdf)))"

section \<open>The 2D converter: \<^verbatim>\<open>obabel_to_eden\<close>\<close>

text \<open>
  \<^verbatim>\<open>
    def smi_has_error(smi):
        smi = smi.strip()
        n_open_parenthesis = sum(1 for c in smi if c == '(')
        n_close_parenthesis = sum(1 for c in smi if c == ')')
        n_open_parenthesis_square = sum(1 for c in smi if c == '[')
        n_close_parenthesis_square = sum(1 for c in smi if c == ']')
        return (n_open_parenthesis != n_close_parenthesis) or \
            (n_open_parenthesis_square != n_close_parenthesis_square)
  \<close>
\<close>

definition smi_has_error :: "string \<Rightarrow> bool" where
  "smi_has_error smi =
     (let s = strip smi
      in count_list s CHR ''('' \<noteq> count_list s CHR '')'' \<or>
         count_list s CHR ''['' \<noteq> count_list s CHR '']'')"

text \<open>The bodies of the two loops of \<^verbatim>\<open>obabel_to_eden\<close>, for one record.\<close>

definition eden_sdf_record :: "env \<Rightarrow> string \<Rightarrow> graph gen" where
  "eden_sdf_record E mol_sdf =
     (case readstring_sdf E (strip mol_sdf) of
        Inl e \<Rightarrow> ([], Some e)
      | Inr mol \<Rightarrow>
          (let G = obabel_to_networkx (removeh E mol)
           in (if len_graph G \<noteq> 0 then [G] else [], None)))"

definition eden_smi_record :: "env \<Rightarrow> string \<Rightarrow> graph gen" where
  "eden_smi_record E mol_smi =
     (if \<not> smi_has_error mol_smi then
        (case readstring_smi E (strip mol_smi) of
           Inl e \<Rightarrow> ([], Some e)
         | Inr mol \<Rightarrow>
             (let G = obabel_to_networkx (removeh E mol)
              in (if len_graph G \<noteq> 0 then [G\<lparr>g_info := Some (strip mol_smi)\<rparr>] else [], None)))
      else ([], None))"

text \<open>
  The records are what \<^verbatim>\<open>read(iterable)\<close> iterates over.
\<close>

definition obabel_to_eden :: "env \<Rightarrow> string list \<Rightarrow> string \<Rightarrow> graph gen" where
  "obabel_to_eden E iterable file_format =
     (if file_format = ''sdf'' then gen_for (eden_sdf_record E) iterable
      else if file_format = ''smi'' then gen_for (eden_smi_record E) iterable
      else ([], Some (UnrecognizedFormat file_format)))"

section \<open>The 3D converter: \<^verbatim>\<open>obabel_to_eden3d\<close>\<close>

subsection \<open>Grouping by compound identifier\<close>

text \<open>
  The key function of the \<^verbatim>\<open>groupby\<close>:
  \<^verbatim>\<open>lambda x: pybel.readstring('sdf', x).data['PUBCHEM_COMPOUND_CID']\<close>.
  It raises when the record does not parse or has no such field.
\<close>

definition cid_key :: "env \<Rightarrow> string \<Rightarrow> error + string" where
  "cid_key E x =
     bind_err (readstring_sdf E x)
       (\<lambda>mol. case cid mol of None \<Rightarrow> Inl KeyError | Some c \<Rightarrow> Inr c)"

text \<open>
  \<^verbatim>\<open>groupby\<close> computes the key of each record once, in order, as the records are pulled.
  \<open>keyed\<close> gives the records up to the first one whose key raises, each with its key,
  and that exception.
\<close>

fun keyed :: "env \<Rightarrow> string list \<Rightarrow> (string \<times> string) list \<times> error option" where
  "keyed E [] = ([], None)"
| "keyed E (x # xs) =
     (case cid_key E x of
        Inl e \<Rightarrow> ([], Some e)
      | Inr c \<Rightarrow> (case keyed E xs of (r, e) \<Rightarrow> ((c, x) # r, e)))"

text \<open>The runs of adjacent records with equal keys, in order.\<close>

fun group_adjacent :: "('k \<times> 'v) list \<Rightarrow> ('k \<times> 'v list) list" where
  "group_adjacent [] = []"
| "group_adjacent ((c, v) # rest) =
     (case group_adjacent rest of
        [] \<Rightarrow> [(c, [v])]
      | (c', vs) # gs \<Rightarrow> if c' = c then (c, v # vs) # gs else (c, [v]) # (c', vs) # gs)"

text \<open>
  The groups whose loop body runs to its end, and the exception of the key function if it
  raises.  \<^verbatim>\<open>groupby\<close> reads one record past a run to see that the run has ended, so a key
  that raises does so inside the loop \<^verbatim>\<open>for mol_sdf in g\<close> over the run before it, and that run
  is lost.
\<close>

definition groupby_cid :: "env \<Rightarrow> string list \<Rightarrow> (string \<times> string list) list \<times> error option" where
  "groupby_cid E iterable =
     (case keyed E iterable of
        (r, None) \<Rightarrow> (group_adjacent r, None)
      | (r, Some e) \<Rightarrow> (butlast (group_adjacent r), Some e))"

subsection \<open>The loops over the conformers of a group or of a record\<close>

text \<open>
  \<^verbatim>\<open>
    molecules = []
    for mol_sdf in g:
        molecule = pybel.readstring('sdf', mol_sdf)
        molecule.removeh()
        molecules.append(molecule)
    if len(molecules) > n_conf:
        molecules = molecules[0:n_conf]
  \<close>
\<close>

definition group_molecules :: "env \<Rightarrow> options \<Rightarrow> string list \<Rightarrow> error + molecule list" where
  "group_molecules E kwargs g =
     bind_err (map_err (\<lambda>mol_sdf. bind_err (readstring_sdf E mol_sdf) (\<lambda>m. Inr (removeh E m))) g)
       (\<lambda>molecules. Inr (if int (length molecules) > kw_n_conf kwargs
                          then slice_to molecules (kw_n_conf kwargs) else molecules))"

text \<open>
  The split loop:
  \<^verbatim>\<open>
    for molecule in molecules:
        graph = obabel_to_networkx3d(molecule, **kwargs)
        if len(graph):
            yield graph
  \<close>
\<close>

definition yield_graph :: "options \<Rightarrow> molecule \<Rightarrow> graph gen" where
  "yield_graph kwargs molecule =
     (case obabel_to_networkx3d molecule kwargs of
        Inl e \<Rightarrow> ([], Some e)
      | Inr G \<Rightarrow> (if len_graph G \<noteq> 0 then [G] else [], None))"

text \<open>
  The merging loop:
  \<^verbatim>\<open>
    for molecule in molecules:
        graph = obabel_to_networkx3d(molecule, **kwargs)
        if len(graph):
            global_graph = nx.disjoint_union(global_graph, graph)
  \<close>
\<close>

definition merge_graph :: "options \<Rightarrow> molecule \<Rightarrow> graph \<Rightarrow> error + graph" where
  "merge_graph kwargs molecule global_graph =
     bind_err (obabel_to_networkx3d molecule kwargs)
       (\<lambda>G. Inr (if len_graph G \<noteq> 0 then disjoint_union global_graph G else global_graph))"

subsection \<open>SDF input with the conformers in the file\<close>

definition sdf_file_split_group :: "env \<Rightarrow> options \<Rightarrow> string \<times> string list \<Rightarrow> graph gen" where
  "sdf_file_split_group E kwargs kg =
     (case group_molecules E kwargs (snd kg) of
        Inl e \<Rightarrow> ([], Some e)
      | Inr molecules \<Rightarrow> gen_for (yield_graph kwargs) molecules)"

definition sdf_file_split :: "env \<Rightarrow> options \<Rightarrow> string list \<Rightarrow> graph gen" where
  "sdf_file_split E kwargs iterable =
     (case groupby_cid E iterable of
        (groups, e) \<Rightarrow> gen_append (gen_for (sdf_file_split_group E kwargs) groups) ([], e))"

text \<open>
  The merged variant yields inside the loop over the groups, once a group, and never
  empties \<^verbatim>\<open>global_graph\<close>:
  \<^verbatim>\<open>
    global_graph = nx.Graph()
    for k, g in groupby(...):
        (molecules of the group, capped)
        (the merging loop)
        yield global_graph
  \<close>
\<close>

fun sdf_file_merged_groups ::
  "env \<Rightarrow> options \<Rightarrow> (string \<times> string list) list \<Rightarrow> graph \<Rightarrow> graph gen" where
  "sdf_file_merged_groups E kwargs [] global_graph = ([], None)"
| "sdf_file_merged_groups E kwargs (kg # groups) global_graph =
     (case bind_err (group_molecules E kwargs (snd kg))
             (\<lambda>molecules. fold_err (merge_graph kwargs) molecules global_graph) of
        Inl e \<Rightarrow> ([], Some e)
      | Inr G \<Rightarrow> gen_append ([G], None) (sdf_file_merged_groups E kwargs groups G))"

definition sdf_file_merged :: "env \<Rightarrow> options \<Rightarrow> string list \<Rightarrow> graph gen" where
  "sdf_file_merged E kwargs iterable =
     (case groupby_cid E iterable of
        (groups, e) \<Rightarrow>
          gen_append (sdf_file_merged_groups E kwargs groups empty_graph) ([], e))"

subsection \<open>SDF input, the conformers generated\<close>

text \<open>
  \<^verbatim>\<open>
    mol = pybel.readstring("sdf", mol_sdf)
    mols = generate_conformers(mol.write("sdf"), n_conf)
    for molecule in mols:
        molecule.removeh()
        ...
  \<close>
\<close>

definition sdf_conformers :: "env \<Rightarrow> options \<Rightarrow> string \<Rightarrow> error + molecule list" where
  "sdf_conformers E kwargs mol_sdf =
     bind_err (readstring_sdf E mol_sdf)
       (\<lambda>mol. bind_err (generate_conformers E (write_sdf E mol) (kw_n_conf kwargs))
          (\<lambda>mols. Inr (map (removeh E) mols)))"

definition sdf_gen_split_record :: "env \<Rightarrow> options \<Rightarrow> string \<Rightarrow> graph gen" where
  "sdf_gen_split_record E kwargs mol_sdf =
     (case sdf_conformers E kwargs mol_sdf of
        Inl e \<Rightarrow> ([], Some e)
      | Inr mols \<Rightarrow> gen_for (yield_graph kwargs) mols)"

text \<open>The merged variants yield once, after the loop over the records.\<close>

definition yield_global :: "error + graph \<Rightarrow> graph gen" where
  "yield_global r = (case r of Inl e \<Rightarrow> ([], Some e) | Inr G \<Rightarrow> ([G], None))"

definition sdf_gen_merged :: "env \<Rightarrow> options \<Rightarrow> string list \<Rightarrow> graph gen" where
  "sdf_gen_merged E kwargs iterable =
     yield_global
       (fold_err (\<lambda>mol_sdf global_graph.
                    bind_err (sdf_conformers E kwargs mol_sdf)
                      (\<lambda>mols. fold_err (merge_graph kwargs) mols global_graph))
                 iterable empty_graph)"

subsection \<open>SMILES input\<close>

text \<open>
  The state of the SMILES loops: the cache dictionary and the SMILES strings the
  \<^verbatim>\<open>obabel\<close> conversion was called with, in the order of the calls.
\<close>

record conversions =
  cache :: "string \<rightharpoonup> string"
  tool_calls :: "string list"

text \<open>
  \<^verbatim>\<open>
    if mol_smi not in cache:
        command_string = 'obabel -:"' + mol_smi + '" -osdf --gen3d'
        args = shlex.split(command_string)
        sdf = subprocess.check_output(args)
        sdf = '\n'.join(
            [x for x in sdf.split('\n') if 'WARNING' not in x])
        cache[mol_smi] = sdf
  \<close>
\<close>

definition drop_warnings :: "string \<Rightarrow> string" where
  "drop_warnings sdf = join_lines (filter (\<lambda>x. \<not> contains ''WARNING'' x) (split_lines sdf))"

definition convert_cached :: "env \<Rightarrow> string \<Rightarrow> conversions \<Rightarrow> error option \<times> conversions" where
  "convert_cached E mol_smi st =
     (if cache st mol_smi = None then
        (case obabel_gen3d E mol_smi of
           Inl e \<Rightarrow> (Some e, st\<lparr>tool_calls := tool_calls st @ [mol_smi]\<rparr>)
         | Inr sdf \<Rightarrow>
             (None, \<lparr> cache = (cache st)(mol_smi \<mapsto> drop_warnings sdf),
                      tool_calls = tool_calls st @ [mol_smi] \<rparr>))
      else (None, st))"

text \<open>
  The conformers of one SMILES record:
  \<^verbatim>\<open>mols = generate_conformers(cache[mol_smi], n_conf)\<close> after the conversion.
\<close>

definition smi_conformers ::
  "env \<Rightarrow> options \<Rightarrow> string \<Rightarrow> conversions \<Rightarrow> (error + molecule list) \<times> conversions" where
  "smi_conformers E kwargs mol_smi st =
     (case convert_cached E mol_smi st of
        (Some e, st') \<Rightarrow> (Inl e, st')
      | (None, st') \<Rightarrow>
          (case cache st' mol_smi of
             None \<Rightarrow> (Inl KeyError, st')
           | Some sdf \<Rightarrow> (generate_conformers E sdf (kw_n_conf kwargs), st')))"

fun smi_split :: "env \<Rightarrow> options \<Rightarrow> string list \<Rightarrow> conversions \<Rightarrow> graph gen \<times> conversions" where
  "smi_split E kwargs [] st = (([], None), st)"
| "smi_split E kwargs (mol_smi # rest) st =
     (case smi_conformers E kwargs mol_smi st of
        (Inl e, st') \<Rightarrow> (([], Some e), st')
      | (Inr mols, st') \<Rightarrow>
          (case gen_for (yield_graph kwargs) mols of
             (out, Some e) \<Rightarrow> ((out, Some e), st')
           | (out, None) \<Rightarrow>
               (case smi_split E kwargs rest st' of
                  (r, st'') \<Rightarrow> (gen_append (out, None) r, st''))))"

fun smi_merged_loop ::
  "env \<Rightarrow> options \<Rightarrow> string list \<Rightarrow> graph \<Rightarrow> conversions \<Rightarrow> (error + graph) \<times> conversions" where
  "smi_merged_loop E kwargs [] global_graph st = (Inr global_graph, st)"
| "smi_merged_loop E kwargs (mol_smi # rest) global_graph st =
     (case smi_conformers E kwargs mol_smi st of
        (Inl e, st') \<Rightarrow> (Inl e, st')
      | (Inr mols, st') \<Rightarrow>
          (case fold_err (merge_graph kwargs) mols global_graph of
             Inl e \<Rightarrow> (Inl e, st')
           | Inr G \<Rightarrow> smi_merged_loop E kwargs rest G st'))"

subsection \<open>Invariants of the SMILES loops\<close>

text \<open>
  For a call that started with the cache \<open>c0\<close> and has gone through the records \<open>seen\<close>:
  no conversion was run twice, each was run for a record that was not in \<open>c0\<close>, the
  entries of \<open>c0\<close> are still there and every other entry comes from a conversion; and,
  while nothing has been raised, every record seen and every converted string is in the
  cache.
\<close>

definition calls_ok :: "(string \<rightharpoonup> string) \<Rightarrow> string list \<Rightarrow> conversions \<Rightarrow> bool" where
  "calls_ok c0 seen st =
     (distinct (tool_calls st) \<and> set (tool_calls st) \<subseteq> set seen - dom c0 \<and>
      c0 \<subseteq>\<^sub>m cache st \<and> dom (cache st) \<subseteq> dom c0 \<union> set (tool_calls st))"

definition all_cached :: "string list \<Rightarrow> conversions \<Rightarrow> bool" where
  "all_cached seen st = (set seen \<subseteq> dom (cache st) \<and> set (tool_calls st) \<subseteq> dom (cache st))"

subsection \<open>The converter\<close>

text \<open>
  What a call of \<^verbatim>\<open>obabel_to_eden3d\<close> that is consumed to its end does: the graphs it
  yields and the exception that ends it, the \<^verbatim>\<open>cache\<close> dictionary as the call leaves it, and
  the conversions it ran.
\<close>

record run =
  yielded :: "graph list"
  raised :: "error option"
  conv :: conversions

definition run_of :: "graph gen \<times> conversions \<Rightarrow> run" where
  "run_of r = \<lparr> yielded = fst (fst r), raised = snd (fst r), conv = snd r \<rparr>"

definition obabel_to_eden3d ::
  "env \<Rightarrow> string list \<Rightarrow> string \<Rightarrow> bool \<Rightarrow> (string \<rightharpoonup> string) \<Rightarrow> bool \<Rightarrow> options \<Rightarrow> run" where
  "obabel_to_eden3d E iterable file_format conformers_from_file cache0 split_components kwargs =
     (let st = \<lparr> cache = cache0, tool_calls = [] \<rparr> in
      if file_format = ''sdf'' then
        (if conformers_from_file then
           (if split_components then run_of (sdf_file_split E kwargs iterable, st)
            else run_of (sdf_file_merged E kwargs iterable, st))
         else
           (if split_components then
              run_of (gen_for (sdf_gen_split_record E kwargs) iterable, st)
            else run_of (sdf_gen_merged E kwargs iterable, st)))
      else if file_format = ''smi'' then
        (if split_components then run_of (smi_split E kwargs iterable st)
         else (case smi_merged_loop E kwargs iterable empty_graph st of
                 (r, st') \<Rightarrow> run_of (yield_global r, st')))
      else run_of (([], Some (UnrecognizedFormat file_format)), st))"

text \<open>
  The default \<^verbatim>\<open>cache={}\<close> of the signature is one dictionary, made when the function is
  defined and used by every call that passes no cache.  \<open>module_state\<close> holds it; a call
  with \<open>None\<close> for the cache uses and changes it, a call with \<open>Some c\<close> uses the
  caller's dictionary.
\<close>

record module_state =
  default_cache :: "string \<rightharpoonup> string"

definition initial_module :: module_state where
  "initial_module = \<lparr> default_cache = Map.empty \<rparr>"

definition call_obabel_to_eden3d ::
  "module_state \<Rightarrow> env \<Rightarrow> string list \<Rightarrow> string \<Rightarrow> bool \<Rightarrow> (string \<rightharpoonup> string) option \<Rightarrow>
   bool \<Rightarrow> options \<Rightarrow> run \<times> module_state" where
  "call_obabel_to_eden3d ms E iterable file_format conformers_from_file cache_arg
     split_components kwargs =
     (case cache_arg of
        None \<Rightarrow>
          (let r = obabel_to_eden3d E iterable file_format conformers_from_file
                     (default_cache ms) split_components kwargs
           in (r, ms\<lparr>default_cache := cache (conv r)\<rparr>))
      | Some c \<Rightarrow>
          (obabel_to_eden3d E iterable file_format conformers_from_file c
             split_components kwargs, ms))"

section \<open>Example molecules\<close>

text \<open>Carbon monoxide without its bond: a carbon and an oxygen, one unit apart.\<close>

definition two_atoms :: molecule where
  "two_atoms =
     \<lparr> atoms = [\<lparr> atomicnum = 6, atype = ''C3'', coords = (0, 0, 0) \<rparr>,
                \<lparr> atomicnum = 8, atype = ''O3'', coords = (1, 0, 0) \<rparr>],
       bonds = [], mol_str = ''CO'', cid = None \<rparr>"

text \<open>A single carbon atom, and a hydrogen molecule, each with a compound identifier.\<close>

definition carbon :: "string \<Rightarrow> molecule" where
  "carbon c =
     \<lparr> atoms = [\<lparr> atomicnum = 6, atype = ''C3'', coords = (0, 0, 0) \<rparr>],
       bonds = [], mol_str = ''C'', cid = Some c \<rparr>"

definition hydrogen_gas :: "string \<Rightarrow> molecule" where
  "hydrogen_gas c =
     \<lparr> atoms = [\<lparr> atomicnum = 1, atype = ''H'', coords = (0, 0, 0) \<rparr>,
                \<lparr> atomicnum = 1, atype = ''H'', coords = (74 / 100, 0, 0) \<rparr>],
       bonds = [\<lparr> begin_atom_idx = 1, end_atom_idx = 2, bond_order = ''1'' \<rparr>],
       mol_str = ''[H][H]'', cid = Some c \<rparr>"

text \<open>
  A toolkit that knows three SDF records and one SMILES string, removes the hydrogens of
  a molecule made of hydrogens only, and converts the SMILES string \<^verbatim>\<open>C\<close>.
\<close>

definition toy_env :: env where
  "toy_env =
     \<lparr> readstring_sdf =
         (\<lambda>s. if s = ''carbon 1'' then Inr (carbon ''1'')
              else if s = ''carbon 2'' then Inr (carbon ''2'')
              else if s = ''hydrogen 1'' then Inr (hydrogen_gas ''1'')
              else Inl ValueError),
       readstring_smi = (\<lambda>s. if s = ''C'' then Inr (carbon ''1'') else Inl ValueError),
       removeh =
         (\<lambda>m. if list_all (\<lambda>a. atomicnum a = 1) (atoms m)
              then m\<lparr>atoms := [], bonds := []\<rparr> else m),
       write_sdf = mol_str,
       obabel_gen3d = (\<lambda>s. if s = ''C'' then Inr ''carbon 1'' else Inl ToolError),
       obabel_conformers = (\<lambda>s n. Inl ToolError) \<rparr>"

text \<open>Options with one atom type and one neighbour, and the node of a carbon atom built with them.\<close>

definition small_options :: options where
  "small_options = default_options\<lparr>kw_atom_types := [6], kw_k := 1\<rparr>"

definition carbon_node :: "int \<Rightarrow> int \<times> attrs" where
  "carbon_node n = (n, [(''label'', Vec [1]), (''discrete_label'', Str ''6''),
                        (''atom_type'', Str ''C3''), (''ID'', Num 0)])"

section \<open>Properties of \<^verbatim>\<open>mol_file_to_iterable\<close>\<close>

lemma sdf_loop_length:
  "length (sdf_loop s ls) = length (filter is_terminator ls)"
  by (induction ls arbitrary: s) (simp_all add: is_terminator_def)

lemma sdf_loop_no_terminator:
  "\<forall>l \<in> set ls. \<not> is_terminator l \<Longrightarrow> sdf_loop s ls = []"
  by (induction ls arbitrary: s) (simp_all add: is_terminator_def)

lemma sdf_loop_block:
  "\<forall>l \<in> set body. \<not> is_terminator l \<Longrightarrow> is_terminator t \<Longrightarrow>
   sdf_loop s (body @ t # rest) = (s @ concat body @ t) # sdf_loop [] rest"
  by (induction body arbitrary: s) (simp_all add: is_terminator_def)

lemma sdf_loop_trailing:
  "\<forall>l \<in> set trailing. \<not> is_terminator l \<Longrightarrow>
   sdf_loop s (ls @ trailing) = sdf_loop s ls"
  by (induction ls arbitrary: s) (simp_all add: sdf_loop_no_terminator)

text \<open>
  Claim C10.  Reading an SDF file, \<^verbatim>\<open>mol_file_to_iterable\<close> ends normally and yields
  exactly one record per line whose stripped text is \<^verbatim>\<open>$$$$\<close>; a record is the text of
  the lines accumulated since the previous terminator followed by the terminator line
  itself; lines after the last terminator are dropped: appending lines without a terminator
  to the file changes nothing of what is yielded.
\<close>

theorem mol_file_to_iterable_sdf_records:
  "snd (mol_file_to_iterable f ''sdf'') = None \<and>
   length (fst (mol_file_to_iterable f ''sdf'')) = length (filter is_terminator f) \<and>
   (\<forall>body t rest.
      (\<forall>l \<in> set body. \<not> is_terminator l) \<and> is_terminator t \<longrightarrow>
      fst (mol_file_to_iterable (body @ t # rest) ''sdf'') =
        (concat body @ t) # fst (mol_file_to_iterable rest ''sdf'')) \<and>
   (\<forall>trailing.
      (\<forall>l \<in> set trailing. \<not> is_terminator l) \<longrightarrow>
      mol_file_to_iterable (f @ trailing) ''sdf'' = mol_file_to_iterable f ''sdf'')"
  by (simp add: mol_file_to_iterable_def sdf_loop_length sdf_loop_block sdf_loop_trailing)

theorem mol_file_to_iterable_sdf_records_witness:
  "fst (mol_file_to_iterable
     ([''a\<newline>'', ''b\<newline>''] @ ''$$$$\<newline>'' # [''c\<newline>'', '' $$$$ \<newline>'', ''d\<newline>'']) ''sdf'') =
     [''a\<newline>b\<newline>$$$$\<newline>'', ''c\<newline> $$$$ \<newline>''] \<and>
   mol_file_to_iterable ([''a\<newline>'', ''$$$$\<newline>''] @ [''d\<newline>'']) ''sdf'' =
     ([''a\<newline>$$$$\<newline>''], None)"
proof -
  have t: "is_terminator ''$$$$\<newline>''" "is_terminator '' $$$$ \<newline>''"
    by (simp_all add: is_terminator_def strip_def is_space_def)
  have n: "\<forall>l \<in> set [''a\<newline>'', ''b\<newline>'']. \<not> is_terminator l"
    "\<forall>l \<in> set [''d\<newline>'']. \<not> is_terminator l"
    by (simp_all add: is_terminator_def strip_def is_space_def)
  from mol_file_to_iterable_sdf_records [of "[''a\<newline>'', ''$$$$\<newline>'']"] t n
  show ?thesis
    by (simp add: mol_file_to_iterable_def is_terminator_def strip_def is_space_def)
qed

section \<open>Properties of the distance matrix\<close>

















section \<open>Properties of \<^verbatim>\<open>find_nearest_neighbors\<close>\<close>

lemma np_index_ok:
  "1 \<le> i \<Longrightarrow> i \<le> int (length xs) \<Longrightarrow> np_index xs (i - 1) = Inr (xs ! nat (i - 1))"
  by (simp add: np_index_def Let_def)

lemma argsort_filter_length:
  "length (filter P (argsort row)) = length (filter P [0..<length row])"
  by (simp add: argsort_def filter_sort)

lemma atom_idx_member:
  "i < length (atoms mol) \<Longrightarrow>
   (int i + 1 \<in> set (atom_idx_of mol a)) = (atomicnum (atoms mol ! i) = a)"
  by (auto simp: atom_idx_of_def)

lemma found_length:
  assumes "length row = length (atoms mol)"
  shows "length (filter (\<lambda>id. int id + 1 \<in> set (atom_idx_of mol a)) (argsort row)) =
         length (atom_idx_of mol a)"
proof -
  have "filter (\<lambda>id. int id + 1 \<in> set (atom_idx_of mol a)) [0..<length row] =
        filter (\<lambda>i. atomicnum (atoms mol ! i) = a) [0..<length (atoms mol)]"
    unfolding assms by (rule filter_cong) (simp_all add: atom_idx_member)
  then show ?thesis by (simp add: argsort_filter_length atom_idx_of_def)
qed

lemma nearest_of_type_length:
  assumes "length row = length (atoms mol)" "0 \<le> kk"
  shows "length (nearest_of_type mol (argsort row) kk a) = nat kk"
proof (cases "kk \<le> int (length (atom_idx_of mol a))")
  case True
  with assms(2) found_length[OF assms(1), of a] show ?thesis
    by (simp add: nearest_of_type_def Let_def slice_to_def)
next
  case False
  then have "length (atom_idx_of mol a) + nat (kk - int (length (atom_idx_of mol a))) = nat kk"
    by linarith
  with False found_length[OF assms(1), of a] show ?thesis
    by (simp add: nearest_of_type_def Let_def)
qed

lemma concat_blocks_length:
  "(\<And>b. b \<in> set bs \<Longrightarrow> length b = K) \<Longrightarrow> length (concat bs) = length bs * K"
  by (induction bs) simp_all

lemma atom_idx_of_length: "length (atom_idx_of mol a) = length (atoms_of_type mol a)"
  by (simp add: atom_idx_of_def atoms_of_type_def)

lemma found_eq:
  assumes "length row = length (atoms mol)"
  shows "filter (\<lambda>id. int id + 1 \<in> set (atom_idx_of mol a)) (argsort row) =
         sort_key (\<lambda>i. row ! i) (atoms_of_type mol a)"
proof -
  have "filter (\<lambda>id. int id + 1 \<in> set (atom_idx_of mol a)) [0..<length row] =
        filter (\<lambda>i. atomicnum (atoms mol ! i) = a) [0..<length (atoms mol)]"
    unfolding assms by (rule filter_cong) (simp_all add: atom_idx_member)
  then show ?thesis by (simp add: argsort_def filter_sort atoms_of_type_def)
qed

lemma nearest_of_type_eq:
  assumes "length row = length (atoms mol)" "0 \<le> kk"
  shows "nearest_of_type mol (argsort row) kk a =
         map Some (take (nat kk) (sort_key (\<lambda>i. row ! i) (atoms_of_type mol a))) @
         replicate (nat kk - length (atoms_of_type mol a)) None"
proof (cases "kk \<le> int (length (atom_idx_of mol a))")
  case True
  then have "nat kk - length (atoms_of_type mol a) = 0"
    by (simp add: atom_idx_of_length)
  with True assms(2) show ?thesis
    by (simp add: nearest_of_type_def Let_def slice_to_def found_eq[OF assms(1)] take_map)
next
  case False
  then have a: "length (atoms_of_type mol a) \<le> nat kk"
    by (simp add: atom_idx_of_length)
  have b: "nat (kk - int (length (atom_idx_of mol a))) = nat kk - length (atoms_of_type mol a)"
    using False by (simp add: atom_idx_of_length)
  from False a show ?thesis
    by (simp add: nearest_of_type_def Let_def found_eq[OF assms(1)] b)
qed

lemma concat_blocks_take_drop:
  assumes "\<And>b. b \<in> set bs \<Longrightarrow> length b = K" "t < length bs"
  shows "take K (drop (t * K) (concat bs)) = bs ! t"
  using assms
proof (induction bs arbitrary: t)
  case Nil
  then show ?case by simp
next
  case (Cons b bs)
  show ?case
  proof (cases t)
    case 0
    with Cons.prems(1)[of b] show ?thesis by simp
  next
    case (Suc t')
    have "take K (drop (t' * K) (concat bs)) = bs ! t'"
      using Cons.prems Suc by (intro Cons.IH) simp_all
    with Suc Cons.prems(1)[of b] show ?thesis by simp
  qed
qed

text \<open>
  Claim C1.  For a molecule and its \<open>N\<close> by \<open>N\<close> distance matrix, any of its atoms, any
  \<open>atom_types\<close> and any number \<open>k\<close> of neighbours (a count: not negative),
  \<^verbatim>\<open>find_nearest_neighbors\<close> returns a vector of length \<open>len(atom_types) * k\<close>.  Its
  \<open>t\<close>-th block of \<open>k\<close> entries is made of the distances to the atoms of the \<open>t\<close>-th type,
  ascending, at most \<open>k\<close> of them, padded to length \<open>k\<close> with \<^verbatim>\<open>1e10\<close> when the molecule has
  fewer than \<open>k\<close> atoms of the type; the threshold filter and the similarity function are
  applied to the padded block.
\<close>

theorem find_nearest_neighbors_length:
  assumes "length distances = length (atoms mol)"
    and "\<forall>r \<in> set distances. length r = length (atoms mol)"
    and "1 \<le> current_idx" and "current_idx \<le> int (length (atoms mol))"
    and "0 \<le> kw_k kwargs"
  shows "\<exists>v. find_nearest_neighbors mol distances current_idx kwargs = Inr v \<and>
     length v = length (kw_atom_types kwargs) * nat (kw_k kwargs) \<and>
     (\<forall>t < length (kw_atom_types kwargs).
        take (nat (kw_k kwargs)) (drop (t * nat (kw_k kwargs)) v) =
        map (\<lambda>x. apply_similarity (kw_similarity_fn kwargs) (apply_threshold (kw_threshold kwargs) x))
          (map (\<lambda>i. distances ! nat (current_idx - 1) ! i)
             (take (nat (kw_k kwargs))
                (sort_key (\<lambda>i. distances ! nat (current_idx - 1) ! i)
                   (atoms_of_type mol (kw_atom_types kwargs ! t)))) @
           replicate (nat (kw_k kwargs) - length (atoms_of_type mol (kw_atom_types kwargs ! t)))
             large_distance))"
proof -
  let ?row = "distances ! nat (current_idx - 1)"
  let ?K = "nat (kw_k kwargs)"
  let ?post = "\<lambda>x. apply_similarity (kw_similarity_fn kwargs) (apply_threshold (kw_threshold kwargs) x)"
  let ?blocks = "map (nearest_of_type mol (argsort ?row) (kw_k kwargs)) (kw_atom_types kwargs)"
  let ?pblocks = "map (map (\<lambda>i. ?post (to_distance ?row i))) ?blocks"
  have idx: "np_index distances (current_idx - 1) = Inr ?row"
    using assms(1,3,4) by (intro np_index_ok) simp_all
  have "?row \<in> set distances" using assms(1,3,4) by (intro nth_mem) linarith
  then have row: "length ?row = length (atoms mol)" using assms(2) by blast
  have res: "find_nearest_neighbors mol distances current_idx kwargs = Inr (concat ?pblocks)"
    by (simp add: find_nearest_neighbors_def idx Let_def map_concat comp_def)
  have len: "length b = ?K" if "b \<in> set ?pblocks" for b
    using that nearest_of_type_length[OF row assms(5)] by auto
  have l: "length (concat ?pblocks) = length (kw_atom_types kwargs) * ?K"
    using concat_blocks_length[of ?pblocks ?K] len by simp
  have blk: "take ?K (drop (t * ?K) (concat ?pblocks)) =
        map ?post
          (map (\<lambda>i. ?row ! i)
             (take ?K (sort_key (\<lambda>i. ?row ! i) (atoms_of_type mol (kw_atom_types kwargs ! t)))) @
           replicate (?K - length (atoms_of_type mol (kw_atom_types kwargs ! t))) large_distance)"
    if t: "t < length (kw_atom_types kwargs)" for t
  proof -
    have "take ?K (drop (t * ?K) (concat ?pblocks)) = ?pblocks ! t"
      using len t by (intro concat_blocks_take_drop) simp_all
    also have "\<dots> = map (\<lambda>i. ?post (to_distance ?row i))
        (nearest_of_type mol (argsort ?row) (kw_k kwargs) (kw_atom_types kwargs ! t))"
      using t by simp
    finally show ?thesis
      by (simp add: nearest_of_type_eq[OF row assms(5)] to_distance_def comp_def)
  qed
  show ?thesis using res l blk by blast
qed

theorem find_nearest_neighbors_length_witness:
  "\<exists>v. find_nearest_neighbors two_atoms [[0, 1], [1, 0]] 1
          (default_options\<lparr>kw_atom_types := [6, 7], kw_k := 2\<rparr>) = Inr v \<and>
       length v = 4"
proof -
  let ?o = "default_options\<lparr>kw_atom_types := [6, 7], kw_k := 2\<rparr>"
  let ?d = "[[0, 1], [1, 0 :: real]]"
  have h: "length ?d = length (atoms two_atoms)"
    "\<forall>r \<in> set ?d. length r = length (atoms two_atoms)"
    "(1::int) \<le> 1" "1 \<le> int (length (atoms two_atoms))" "0 \<le> kw_k ?o"
    by (simp_all add: two_atoms_def)
  from find_nearest_neighbors_length[OF h] obtain v where
    v: "find_nearest_neighbors two_atoms ?d 1 ?o = Inr v"
       "length v = length (kw_atom_types ?o) * nat (kw_k ?o)"
    by blast
  from v(2) have "length v = 4" by simp
  with v(1) show ?thesis by blast
qed

section \<open>Properties of \<^verbatim>\<open>calculate_local_density\<close>\<close>

lemma linspace_length: "0 \<le> n \<Longrightarrow> linspace a b n = Inr ts \<Longrightarrow> length ts = nat n"
  by (auto simp: linspace_def split: if_splits)

lemma linspace_ok: "0 \<le> n \<Longrightarrow> \<exists>ts. linspace a b n = Inr ts"
  by (simp add: linspace_def)

lemma linspace_last:
  assumes "2 \<le> n" "linspace a b n = Inr ts"
  shows "last ts = b"
proof -
  from assms have ts: "ts = map (\<lambda>i. if Suc i = nat n then b
        else a + real i * ((b - a) / real_of_int (n - 1))) [0..<nat n]"
    by (simp add: linspace_def split: if_splits)
  from assms(1) obtain m where m: "nat n = Suc m" by (cases "nat n") simp_all
  show ?thesis unfolding ts m by (simp add: last_map)
qed

lemma linspace_sorted:
  assumes "0 \<le> b" "linspace 0 b n = Inr ts"
  shows "sorted ts"
proof (cases "n = 1")
  case True
  with assms show ?thesis by (auto simp: linspace_def)
next
  case False
  define g where "g = (\<lambda>i. if Suc i = nat n then b
        else 0 + real i * ((b - 0) / real_of_int (n - 1)))"
  from False assms have ts: "ts = map g [0..<nat n]"
    by (simp add: linspace_def g_def split: if_splits)
  have mono: "g i \<le> g j" if ij: "i \<le> j" "j < nat n" for i j
  proof -
    have n2: "0 < real_of_int (n - 1)" using ij False by linarith
    have step: "0 \<le> b / real_of_int (n - 1)" using assms(1) n2 by simp
    have lin: "real i * (b / real_of_int (n - 1)) \<le> real j * (b / real_of_int (n - 1))"
      using ij(1) step by (intro mult_right_mono) simp_all
    have top: "real i * (b / real_of_int (n - 1)) \<le> b"
    proof -
      have "real i \<le> real_of_int (n - 1)" using ij by linarith
      then have "real i * (b / real_of_int (n - 1)) \<le> real_of_int (n - 1) * (b / real_of_int (n - 1))"
        using step by (intro mult_right_mono) simp_all
      also have "\<dots> = b" using n2 by simp
      finally show ?thesis .
    qed
    show ?thesis
    proof (cases "Suc j = nat n")
      case True
      then show ?thesis using top by (simp add: g_def)
    next
      case False
      with ij have "Suc i \<noteq> nat n" by linarith
      with False lin show ?thesis by (simp add: g_def)
    qed
  qed
  show ?thesis unfolding ts sorted_iff_nth_mono
  proof (intro allI impI)
    fix i j assume a: "i \<le> j" "j < length (map g [0..<nat n])"
    then have j: "j < nat n" by simp
    with a(1) have i: "i < nat n" by simp
    from mono[OF a(1) j] i j show "map g [0..<nat n] ! i \<le> map g [0..<nat n] ! j" by simp
  qed
qed

lemma count_le_mono:
  "s \<le> t \<Longrightarrow> length (filter (\<lambda>x. x \<le> s) xs) \<le> length (filter (\<lambda>x. x \<le> (t::real)) xs)"
  by (induction xs) auto

lemma density_sorted:
  assumes "sorted (ts :: real list)"
  shows "sorted (map (\<lambda>t. real (length (filter (\<lambda>x. x \<le> t) row)) / real N) ts)"
proof -
  have "sorted_wrt (\<lambda>s t. real (length (filter (\<lambda>x. x \<le> s) row)) / real N
          \<le> real (length (filter (\<lambda>x. x \<le> t) row)) / real N) ts"
    using assms
  proof (rule sorted_wrt_mono_rel[rotated])
    fix s t :: real assume "s \<le> t"
    then have "real (length (filter (\<lambda>x. x \<le> s) row)) \<le> real (length (filter (\<lambda>x. x \<le> t) row))"
      using count_le_mono[of s t row] by simp
    then show "real (length (filter (\<lambda>x. x \<le> s) row)) / real N
          \<le> real (length (filter (\<lambda>x. x \<le> t) row)) / real N"
      by (rule divide_right_mono) simp
  qed
  then show ?thesis by (simp add: sorted_map)
qed

lemma calculate_local_density_eq:
  assumes "length distances = length (atoms mol)"
    and "1 \<le> current_idx" and "current_idx \<le> int (length (atoms mol))"
    and "linspace 0 (kw_max_dist kwargs) (kw_n_intervals kwargs) = Inr ts"
  shows "calculate_local_density mol distances current_idx kwargs =
     Inr (map (\<lambda>t. real (length (filter (\<lambda>x. x \<le> t) (distances ! nat (current_idx - 1))))
                      / real (length (atoms mol))) ts)"
proof -
  have idx: "np_index distances (current_idx - 1) = Inr (distances ! nat (current_idx - 1))"
    using assms(1,2,3) by (intro np_index_ok) simp_all
  have "length (atoms mol) \<noteq> 0" using assms(2,3) by linarith
  then show ?thesis by (simp add: calculate_local_density_def assms(4) idx Let_def)
qed

text \<open>
  Claim C4, as amended.  For a molecule, its \<open>N\<close> by \<open>N\<close> distance matrix, any of its atoms
  and \<open>n_intervals\<close> not negative, \<^verbatim>\<open>calculate_local_density\<close> returns a vector of length
  \<open>n_intervals\<close> whose entries are in \<open>[0, 1]\<close>; the vector is non-decreasing when
  \<open>max_dist\<close> is not negative; its last entry is 1 when there are at least two intervals
  and no distance of the matrix exceeds \<open>max_dist\<close>.
\<close>

theorem calculate_local_density_vector:
  assumes "length distances = length (atoms mol)"
    and "\<forall>r \<in> set distances. length r = length (atoms mol)"
    and "1 \<le> current_idx" and "current_idx \<le> int (length (atoms mol))"
    and "0 \<le> kw_n_intervals kwargs"
  shows "\<exists>v. calculate_local_density mol distances current_idx kwargs = Inr v \<and>
     length v = nat (kw_n_intervals kwargs) \<and>
     (\<forall>x \<in> set v. 0 \<le> x \<and> x \<le> 1) \<and>
     (0 \<le> kw_max_dist kwargs \<longrightarrow> sorted v) \<and>
     (2 \<le> kw_n_intervals kwargs \<and>
      (\<forall>r \<in> set distances. \<forall>x \<in> set r. x \<le> kw_max_dist kwargs) \<longrightarrow> last v = 1)"
proof -
  let ?row = "distances ! nat (current_idx - 1)"
  let ?N = "length (atoms mol)"
  let ?f = "\<lambda>t. real (length (filter (\<lambda>x. x \<le> t) ?row)) / real ?N"
  obtain ts where ts: "linspace 0 (kw_max_dist kwargs) (kw_n_intervals kwargs) = Inr ts"
    using linspace_ok[OF assms(5)] by blast
  have res: "calculate_local_density mol distances current_idx kwargs = Inr (map ?f ts)"
    by (rule calculate_local_density_eq[OF assms(1,3,4) ts])
  have mem: "?row \<in> set distances" using assms(1,3,4) by (intro nth_mem) linarith
  then have row: "length ?row = ?N" using assms(2) by blast
  have N: "0 < ?N" using assms(3,4) by linarith
  have len: "length (map ?f ts) = nat (kw_n_intervals kwargs)"
    using linspace_length[OF assms(5) ts] by simp
  have rng: "0 \<le> ?f t \<and> ?f t \<le> 1" for t
  proof -
    have "length (filter (\<lambda>x. x \<le> t) ?row) \<le> ?N"
      using length_filter_le[of "\<lambda>x. x \<le> t" ?row] row by simp
    then show ?thesis using N by simp
  qed
  have bounds: "\<forall>x \<in> set (map ?f ts). 0 \<le> x \<and> x \<le> 1"
    using rng by auto
  have srt: "sorted (map ?f ts)" if "0 \<le> kw_max_dist kwargs"
    by (rule density_sorted[OF linspace_sorted[OF that ts]])
  have lst: "last (map ?f ts) = 1"
    if a: "2 \<le> kw_n_intervals kwargs" "\<forall>r \<in> set distances. \<forall>x \<in> set r. x \<le> kw_max_dist kwargs"
  proof -
    have ne: "ts \<noteq> []" using linspace_length[OF assms(5) ts] a(1) by auto
    have "filter (\<lambda>x. x \<le> kw_max_dist kwargs) ?row = ?row"
      using a(2) mem by (intro filter_True) blast
    then have "real (length (filter (\<lambda>x. x \<le> kw_max_dist kwargs) ?row)) = real ?N"
      using row by (simp only:)
    then have one: "?f (kw_max_dist kwargs) = 1" using N by simp
    have "last (map ?f ts) = ?f (last ts)" using ne by (rule last_map)
    also have "\<dots> = 1" using one linspace_last[OF a(1) ts] by (simp only:)
    finally show ?thesis .
  qed
  show ?thesis using res len bounds srt lst by blast
qed

theorem calculate_local_density_vector_witness:
  "\<exists>v. calculate_local_density two_atoms [[0, 1], [1, 0]] 1 default_options = Inr v \<and>
       length v = 20 \<and> sorted v \<and> last v = 1"
proof -
  let ?d = "[[0, 1], [1, 0 :: real]]"
  have h: "length ?d = length (atoms two_atoms)"
    "\<forall>r \<in> set ?d. length r = length (atoms two_atoms)"
    "(1::int) \<le> 1" "1 \<le> int (length (atoms two_atoms))" "0 \<le> kw_n_intervals default_options"
    by (simp_all add: two_atoms_def default_options_def)
  have p: "0 \<le> kw_max_dist default_options"
    "2 \<le> kw_n_intervals default_options \<and>
     (\<forall>r \<in> set ?d. \<forall>x \<in> set r. x \<le> kw_max_dist default_options)"
    by (simp_all add: default_options_def)
  from calculate_local_density_vector[OF h] obtain v where
    v: "calculate_local_density two_atoms ?d 1 default_options = Inr v"
       "length v = nat (kw_n_intervals default_options)"
       "0 \<le> kw_max_dist default_options \<longrightarrow> sorted v"
       "2 \<le> kw_n_intervals default_options \<and>
        (\<forall>r \<in> set ?d. \<forall>x \<in> set r. x \<le> kw_max_dist default_options) \<longrightarrow> last v = 1"
    by blast
  from v(2) have "length v = 20" by (simp add: default_options_def)
  moreover from v(3) p(1) have "sorted v" by blast
  moreover from v(4) p(2) have "last v = 1" by blast
  ultimately show ?thesis using v(1) by blast
qed

text \<open>
  Claim C4 as stated fails.  For the two atoms one unit apart and the default \<open>max_dist\<close> of
  10, a single interval gives the one threshold 0 and the vector \<open>[1/2]\<close>, whose last entry
  is not 1; and with a negative \<open>max_dist\<close> the thresholds decrease and so does the vector.
\<close>

theorem calculate_local_density_final_entry_counterexample:
  "distance_matrix two_atoms = Inr [[0, 1], [1, 0]] \<and>
   calculate_local_density two_atoms [[0, 1], [1, 0]] 1
     (default_options\<lparr>kw_n_intervals := 1\<rparr>) = Inr [1 / 2] \<and>
   calculate_local_density two_atoms [[0, 1], [1, 0]] 1
     (default_options\<lparr>kw_max_dist := - 1, kw_n_intervals := 2\<rparr>) = Inr [1 / 2, 0]"
proof -
  have d: "distance_matrix two_atoms = Inr [[0, 1], [1, 0]]"
    by (simp add: distance_matrix_def pdist_def squareform_def two_atoms_def euclidean_def
        condensed_index_def)
  have l1: "linspace 0 10 1 = Inr [0]"
    by (simp add: linspace_def)
  have l2: "linspace 0 (- 1) 2 = Inr [0, - 1]"
    by (simp add: linspace_def eval_nat_numeral)
  have i: "np_index [[0, 1], [1, 0 :: real]] 0 = Inr [0, 1]"
    by (simp add: np_index_def)
  have a: "calculate_local_density two_atoms [[0, 1], [1, 0]] 1
     (default_options\<lparr>kw_n_intervals := 1\<rparr>) = Inr [1 / 2]"
    by (simp add: calculate_local_density_def default_options_def l1 i two_atoms_def)
  have b: "calculate_local_density two_atoms [[0, 1], [1, 0]] 1
     (default_options\<lparr>kw_max_dist := - 1, kw_n_intervals := 2\<rparr>) = Inr [1 / 2, 0]"
    by (simp add: calculate_local_density_def default_options_def l2 i two_atoms_def)
  from d a b show ?thesis by (intro conjI)
qed

section \<open>Properties of the graph builders\<close>















section \<open>Properties of the converters\<close>

lemma gen_append_empty [simp]: "gen_append ([], None) b = b" "gen_append a ([], None) = a"
  by (cases a; cases "snd a"; simp add: gen_append_def)+

lemma gen_append_assoc: "gen_append (gen_append a b) c = gen_append a (gen_append b c)"
  by (cases a; cases b; cases "snd a"; cases "snd b"; simp add: gen_append_def)

lemma gen_for_append: "gen_for body (xs @ ys) = gen_append (gen_for body xs) (gen_for body ys)"
  by (induction xs) (simp_all add: gen_append_assoc)


















section \<open>The converters on the example molecules\<close>

lemma carbon_distances: "distance_matrix (carbon c) = Inr [[0]]"
  by (simp add: distance_matrix_def pdist_def squareform_def carbon_def)

lemma carbon_label:
  "find_nearest_neighbors (carbon c) [[0]] 1 (small_options\<lparr>kw_n_conf := n\<rparr>) = Inr [1]"
  by (simp add: find_nearest_neighbors_def np_index_def small_options_def default_options_def
      argsort_def nearest_of_type_def atom_idx_of_def carbon_def slice_to_def to_distance_def
      apply_threshold_def apply_similarity_def spacing_large_distance_def Let_def)

lemma carbon_graph3d_n:
  "obabel_to_networkx3d (carbon c) (small_options\<lparr>kw_n_conf := n\<rparr>) =
     Inr \<lparr> g_info = Some ''C'', g_nodes = [carbon_node 0], g_edges = [] \<rparr>"
proof -
  have m: "kw_method (small_options\<lparr>kw_n_conf := n\<rparr>) = ''metric''" by (simp add: small_options_def default_options_def)
  have s: "strip ''C'' = ''C''" by (simp add: strip_def is_space_def)
  have a: "add_atom (carbon c) [[0]] (small_options\<lparr>kw_n_conf := n\<rparr>) 0 (empty_graph\<lparr>g_info := Some ''C''\<rparr>) =
      Inr \<lparr> g_info = Some ''C'', g_nodes = [carbon_node 0], g_edges = [] \<rparr>"
    unfolding add_atom_def Let_def
    by (simp add: m carbon_label bind_err_def add_node_def empty_graph_def set_node_attr_def
        carbon_node_def str_int_def)
      (simp add: carbon_def)
  have f: "length (atoms (carbon c)) = 1" "bonds (carbon c) = []" "mol_str (carbon c) = ''C''"
    by (simp_all add: carbon_def)
  show ?thesis
    unfolding obabel_to_networkx3d_def Let_def
    by (simp add: carbon_distances bind_err_def f s a)
qed

lemma small_options_n_conf: "small_options\<lparr>kw_n_conf := 1\<rparr> = small_options"
  by (simp add: small_options_def default_options_def)

lemma carbon_graph3d:
  "obabel_to_networkx3d (carbon c) small_options =
     Inr \<lparr> g_info = Some ''C'', g_nodes = [carbon_node 0], g_edges = [] \<rparr>"
  using carbon_graph3d_n[of c 1] by (simp add: small_options_n_conf)

lemma toy_keys:
  "cid_key toy_env ''carbon 1'' = Inr ''1''" "cid_key toy_env ''carbon 2'' = Inr ''2''"
  "cid_key toy_env ''hydrogen 1'' = Inr ''1''"
  by (simp_all add: cid_key_def bind_err_def toy_env_def carbon_def hydrogen_gas_def)

lemma toy_carbon_molecules:
  "kw_n_conf kwargs = 1 \<Longrightarrow> group_molecules toy_env kwargs [''carbon 1''] = Inr [carbon ''1'']"
  "kw_n_conf kwargs = 1 \<Longrightarrow> group_molecules toy_env kwargs [''carbon 2''] = Inr [carbon ''2'']"
  by (simp_all add: group_molecules_def bind_err_def toy_env_def carbon_def)

lemma relabel_empty: "relabel n empty_graph = empty_graph"
  by (simp add: relabel_def empty_graph_def)

lemma small_n_conf: "kw_n_conf small_options = 1"
  by (simp add: small_options_def default_options_def)

text \<open>
  The merged paths that generate the conformers, from SDF or from SMILES records, yield
  one graph when they end without raising.
\<close>

lemma yield_global_once: "snd (yield_global r) = None \<Longrightarrow> length (fst (yield_global r)) = 1"
  by (cases r) (simp_all add: yield_global_def)

lemma merged_yields_once:
  assumes "file_format = ''smi'' \<or> (file_format = ''sdf'' \<and> \<not> cff)"
    and "raised (obabel_to_eden3d E iterable file_format cff c0 False kwargs) = None"
  shows "length (yielded (obabel_to_eden3d E iterable file_format cff c0 False kwargs)) = 1"
proof (cases "file_format = ''sdf''")
  case True
  with assms show ?thesis
    using yield_global_once[of "fold_err (\<lambda>mol_sdf global_graph.
                    bind_err (sdf_conformers E kwargs mol_sdf)
                      (\<lambda>mols. fold_err (merge_graph kwargs) mols global_graph))
                 iterable empty_graph"]
    by (simp add: obabel_to_eden3d_def run_of_def Let_def sdf_gen_merged_def)
next
  case False
  with assms(1) have smi: "file_format = ''smi''" by simp
  obtain r st' where r: "smi_merged_loop E kwargs iterable empty_graph
      \<lparr> cache = c0, tool_calls = [] \<rparr> = (r, st')"
    by (cases "smi_merged_loop E kwargs iterable empty_graph \<lparr> cache = c0, tool_calls = [] \<rparr>")
  with assms(2) smi show ?thesis
    using yield_global_once[of r]
    by (simp add: obabel_to_eden3d_def run_of_def Let_def)
qed

text \<open>
  Claim C3 at two records with different compound identifiers, one carbon atom each, read
  with \<^verbatim>\<open>conformers_from_file=True\<close> and \<^verbatim>\<open>split_components=False\<close>: the converter yields
  two graphs, one a group; the first has one node and the second has two, the atom of the
  first group and the atom of the second.
\<close>

theorem merged_from_file_yields_cumulative_graphs:
  "groupby_cid toy_env [''carbon 1'', ''carbon 2''] =
     ([(''1'', [''carbon 1'']), (''2'', [''carbon 2''])], None) \<and>
   raised (obabel_to_eden3d toy_env [''carbon 1'', ''carbon 2''] ''sdf'' True Map.empty False
             small_options) = None \<and>
   map len_graph
     (yielded (obabel_to_eden3d toy_env [''carbon 1'', ''carbon 2''] ''sdf'' True Map.empty False
                 small_options)) = [1, 2]"
proof -
  let ?C = "\<lparr> g_info = Some ''C'', g_nodes = [carbon_node 0], g_edges = [] \<rparr>"
  have g: "groupby_cid toy_env [''carbon 1'', ''carbon 2''] =
     ([(''1'', [''carbon 1'']), (''2'', [''carbon 2''])], None)"
    by (simp add: groupby_cid_def toy_keys)
  have m1: "merge_graph small_options (carbon ''1'') empty_graph = Inr (disjoint_union empty_graph ?C)"
    by (simp add: merge_graph_def bind_err_def carbon_graph3d len_graph_def)
  have m2: "merge_graph small_options (carbon ''2'') (disjoint_union empty_graph ?C) =
      Inr (disjoint_union (disjoint_union empty_graph ?C) ?C)"
    by (simp add: merge_graph_def bind_err_def carbon_graph3d len_graph_def)
  have r: "sdf_file_merged toy_env small_options [''carbon 1'', ''carbon 2''] =
      ([disjoint_union empty_graph ?C, disjoint_union (disjoint_union empty_graph ?C) ?C], None)"
    by (simp add: sdf_file_merged_def g toy_carbon_molecules small_n_conf bind_err_def m1 m2
        gen_append_def)
  have l: "len_graph (disjoint_union empty_graph ?C) = 1"
    "len_graph (disjoint_union (disjoint_union empty_graph ?C) ?C) = 2"
    by (simp_all add: disjoint_union_def relabel_def len_graph_def empty_graph_def Let_def)
  show ?thesis
    by (simp add: g obabel_to_eden3d_def run_of_def Let_def r l)
qed

lemma unrecognized_format_aborts:
  assumes "file_format \<noteq> ''sdf''" "file_format \<noteq> ''smi''"
  shows "mol_file_to_iterable f file_format = ([], Some (UnrecognizedFormat file_format))"
    and "obabel_to_eden E iterable file_format = ([], Some (UnrecognizedFormat file_format))"
    and "yielded (obabel_to_eden3d E iterable file_format cff c0 sc kwargs) = []"
    and "raised (obabel_to_eden3d E iterable file_format cff c0 sc kwargs) =
           Some (UnrecognizedFormat file_format)"
  using assms
  by (simp_all add: mol_file_to_iterable_def obabel_to_eden_def obabel_to_eden3d_def run_of_def
      Let_def)

text \<open>
  Claim C7 at the method name \<^verbatim>\<open>nearest\<close>: the converter raises nothing and yields the
  graph of the record, whose node has no \<^verbatim>\<open>label\<close>.
\<close>

theorem unrecognized_method_builds_unlabelled_graph:
  "obabel_to_eden3d toy_env [''carbon 1''] ''sdf'' True Map.empty True
     (small_options\<lparr>kw_method := ''nearest''\<rparr>) =
   \<lparr> yielded = [\<lparr> g_info = Some ''C'',
                   g_nodes = [(0, [(''discrete_label'', Str ''6''), (''atom_type'', Str ''C3''),
                                   (''ID'', Num 0)])],
                   g_edges = [] \<rparr>],
     raised = None,
     conv = \<lparr> cache = Map.empty, tool_calls = [] \<rparr> \<rparr>"
proof -
  let ?o = "small_options\<lparr>kw_method := ''nearest''\<rparr>"
  let ?G = "\<lparr> g_info = Some ''C'',
                   g_nodes = [(0, [(''discrete_label'', Str ''6''), (''atom_type'', Str ''C3''),
                                   (''ID'', Num 0)])],
                   g_edges = [] \<rparr>"
  have m: "kw_method ?o \<noteq> ''metric''" "kw_method ?o \<noteq> ''topological''" "kw_n_conf ?o = 1"
    by (simp_all add: small_options_def default_options_def)
  have s: "strip ''C'' = ''C''" by (simp add: strip_def is_space_def)
  have f: "length (atoms (carbon c)) = 1" "bonds (carbon c) = []" "mol_str (carbon c) = ''C''"
    for c by (simp_all add: carbon_def)
  have a: "add_atom (carbon ''1'') [[0]] ?o 0 (empty_graph\<lparr>g_info := Some ''C''\<rparr>) = Inr ?G"
    unfolding add_atom_def Let_def
    by (simp add: m bind_err_def add_node_def empty_graph_def set_node_attr_def str_int_def)
      (simp add: carbon_def)
  have b: "obabel_to_networkx3d (carbon ''1'') ?o = Inr ?G"
    unfolding obabel_to_networkx3d_def Let_def
    by (simp add: carbon_distances bind_err_def f s a)
  have g: "groupby_cid toy_env [''carbon 1''] = ([(''1'', [''carbon 1''])], None)"
    by (simp add: groupby_cid_def toy_keys)
  have r: "sdf_file_split toy_env ?o [''carbon 1''] = ([?G], None)"
    by (simp add: sdf_file_split_def g sdf_file_split_group_def toy_carbon_molecules m
        yield_graph_def b len_graph_def gen_append_def)
  show ?thesis
    by (simp add: obabel_to_eden3d_def run_of_def Let_def r)
qed

section \<open>Malformed SMILES records\<close>

lemma eden_smi_record_skips_malformed:
  "smi_has_error x \<Longrightarrow> eden_smi_record E x = ([], None)"
  by (simp add: eden_smi_record_def)

lemma obabel_to_eden_skips_malformed:
  "smi_has_error x \<Longrightarrow>
   obabel_to_eden E (before @ x # after) ''smi'' = obabel_to_eden E (before @ after) ''smi''"
  by (simp add: obabel_to_eden_def gen_for_append eden_smi_record_skips_malformed)

lemma convert_cached_calls:
  "tool_calls (snd (convert_cached E x st)) =
     tool_calls st @ (if cache st x = None then [x] else [])"
  by (simp add: convert_cached_def split: sum.splits)

lemma smi_conformers_calls:
  "tool_calls (snd (smi_conformers E kwargs x st)) =
     tool_calls st @ (if cache st x = None then [x] else [])"
proof -
  obtain e st' where c: "convert_cached E x st = (e, st')" by (cases "convert_cached E x st")
  then have "tool_calls st' = tool_calls st @ (if cache st x = None then [x] else [])"
    using convert_cached_calls[of E x st] by simp
  with c show ?thesis
    by (cases e; cases "cache st' x") (simp_all add: smi_conformers_def)
qed

lemma smi_split_single_calls:
  "tool_calls (snd (smi_split E kwargs [x] st)) =
     tool_calls st @ (if cache st x = None then [x] else [])"
proof -
  obtain r st' where c: "smi_conformers E kwargs x st = (r, st')"
    by (cases "smi_conformers E kwargs x st")
  then have t: "tool_calls st' = tool_calls st @ (if cache st x = None then [x] else [])"
    using smi_conformers_calls[of E kwargs x st] by simp
  show ?thesis
  proof (cases r)
    case (Inl e)
    with c t show ?thesis by simp
  next
    case (Inr mols)
    obtain out e where o: "gen_for (yield_graph kwargs) mols = (out, e)"
      by (cases "gen_for (yield_graph kwargs) mols")
    with c t Inr show ?thesis by (cases e) simp_all
  qed
qed

lemma smi_merged_single_calls:
  "tool_calls (snd (smi_merged_loop E kwargs [x] G st)) =
     tool_calls st @ (if cache st x = None then [x] else [])"
proof -
  obtain r st' where c: "smi_conformers E kwargs x st = (r, st')"
    by (cases "smi_conformers E kwargs x st")
  then have t: "tool_calls st' = tool_calls st @ (if cache st x = None then [x] else [])"
    using smi_conformers_calls[of E kwargs x st] by simp
  show ?thesis
  proof (cases r)
    case (Inl e)
    with c t show ?thesis by simp
  next
    case (Inr mols)
    with c t show ?thesis by (cases "fold_err (merge_graph kwargs) mols G") simp_all
  qed
qed

text \<open>
  Claim C8 at the SMILES record \<^verbatim>\<open>C(C\<close>, which has one opening parenthesis and no closing
  one: in the 3D SMILES path, split or merged, with an empty cache and whatever the
  toolkit does, the \<^verbatim>\<open>obabel\<close> conversion is called with the record.  (In the 2D converter
  the record is skipped; that is \<open>obabel_to_eden_skips_malformed\<close>.)
\<close>

theorem malformed_smiles_is_converted_in_3d_path:
  "smi_has_error ''C(C'' \<and>
   tool_calls (conv (obabel_to_eden3d E [''C(C''] ''smi'' cff Map.empty sc kwargs)) = [''C(C'']"
proof -
  have e: "smi_has_error ''C(C''"
    by (simp add: smi_has_error_def strip_def is_space_def)
  let ?st = "\<lparr> cache = Map.empty, tool_calls = [] \<rparr>"
  have "tool_calls (conv (obabel_to_eden3d E [''C(C''] ''smi'' cff Map.empty sc kwargs)) = [''C(C'']"
  proof (cases sc)
    case True
    then show ?thesis
      using smi_split_single_calls[of E kwargs "''C(C''" ?st]
      by (simp add: obabel_to_eden3d_def run_of_def Let_def)
  next
    case False
    obtain r st' where m: "smi_merged_loop E kwargs [''C(C''] empty_graph ?st = (r, st')"
      by (cases "smi_merged_loop E kwargs [''C(C''] empty_graph ?st")
    with False show ?thesis
      using smi_merged_single_calls[of E kwargs "''C(C''" empty_graph ?st]
      by (simp add: obabel_to_eden3d_def run_of_def Let_def)
  qed
  with e show ?thesis by simp
qed

theorem malformed_smiles_is_converted_in_3d_path_witness:
  "smi_has_error ''C(C'' \<and>
   tool_calls (conv (obabel_to_eden3d toy_env [''C(C''] ''smi'' True Map.empty True
                       default_options)) = [''C(C'']"
  by (rule malformed_smiles_is_converted_in_3d_path)

section \<open>The conversion cache\<close>

lemma smi_conformers_step:
  assumes "calls_ok c0 seen st" "all_cached seen st"
    and "smi_conformers E kwargs x st = (r, st')"
  shows "calls_ok c0 (seen @ [x]) st'"
    and "(\<exists>mols. r = Inr mols) \<Longrightarrow> all_cached (seen @ [x]) st'"
proof -
  show "calls_ok c0 (seen @ [x]) st'"
  proof (cases "cache st x")
    case (Some sdf)
    with assms(3) have "st' = st" by (simp add: smi_conformers_def convert_cached_def)
    with assms(1) show ?thesis by (auto simp: calls_ok_def)
  next
    case None
    from None assms(1) have x0: "x \<notin> dom c0" by (auto simp: calls_ok_def map_le_def dom_def)
    from None assms(2) have xc: "x \<notin> set (tool_calls st)" by (auto simp: all_cached_def)
    show ?thesis
    proof (cases "obabel_gen3d E x")
      case (Inl e)
      with None assms(3) have "st' = st\<lparr>tool_calls := tool_calls st @ [x]\<rparr>"
        by (simp add: smi_conformers_def convert_cached_def)
      with assms(1) x0 xc show ?thesis by (auto simp: calls_ok_def)
    next
      case (Inr sdf)
      with None assms(3) have "st' = \<lparr> cache = (cache st)(x \<mapsto> drop_warnings sdf),
          tool_calls = tool_calls st @ [x] \<rparr>"
        by (simp add: smi_conformers_def convert_cached_def)
      with assms(1) x0 xc None show ?thesis
        by (auto simp: calls_ok_def map_le_def dom_def)
    qed
  qed
next
  assume "\<exists>mols. r = Inr mols"
  then obtain mols where r: "r = Inr mols" by blast
  show "all_cached (seen @ [x]) st'"
  proof (cases "cache st x")
    case (Some sdf)
    with assms(3) have "st' = st" by (simp add: smi_conformers_def convert_cached_def)
    with assms(2) Some show ?thesis by (auto simp: all_cached_def)
  next
    case None
    show ?thesis
    proof (cases "obabel_gen3d E x")
      case (Inl e)
      with None assms(3) r show ?thesis by (simp add: smi_conformers_def convert_cached_def)
    next
      case (Inr sdf)
      with None assms(3) have "st' = \<lparr> cache = (cache st)(x \<mapsto> drop_warnings sdf),
          tool_calls = tool_calls st @ [x] \<rparr>"
        by (simp add: smi_conformers_def convert_cached_def)
      with assms(2) show ?thesis by (auto simp: all_cached_def)
    qed
  qed
qed

lemma calls_ok_mono: "calls_ok c0 seen st \<Longrightarrow> calls_ok c0 (seen @ ys) st"
  by (auto simp: calls_ok_def)

lemma smi_split_calls:
  assumes "calls_ok c0 seen st" "all_cached seen st"
    and "smi_split E kwargs xs st = (r, st')"
  shows "calls_ok c0 (seen @ xs) st' \<and> (snd r = None \<longrightarrow> all_cached (seen @ xs) st')"
  using assms
proof (induction xs arbitrary: seen st r st')
  case Nil
  then show ?case by simp
next
  case (Cons x xs)
  obtain r1 st1 where c: "smi_conformers E kwargs x st = (r1, st1)"
    by (cases "smi_conformers E kwargs x st")
  note step = smi_conformers_step[OF Cons.prems(1,2) c]
  show ?case
  proof (cases r1)
    case (Inl e)
    with Cons.prems(3) c have "st' = st1" "snd r = Some e" by auto
    with step(1) calls_ok_mono[of c0 "seen @ [x]" st1 xs] show ?thesis by simp
  next
    case (Inr mols)
    with step(2) have ac: "all_cached (seen @ [x]) st1" by blast
    obtain out e where o: "gen_for (yield_graph kwargs) mols = (out, e)"
      by (cases "gen_for (yield_graph kwargs) mols")
    show ?thesis
    proof (cases e)
      case (Some err)
      have "smi_split E kwargs (x # xs) st = ((out, Some err), st1)"
        by (simp add: c Inr o Some)
      with Cons.prems(3) have "st' = st1" "snd r = Some err" by simp_all
      with step(1) calls_ok_mono[of c0 "seen @ [x]" st1 xs] show ?thesis by simp
    next
      case None
      obtain r2 st2 where r2: "smi_split E kwargs xs st1 = (r2, st2)"
        by (cases "smi_split E kwargs xs st1")
      have "smi_split E kwargs (x # xs) st = (gen_append (out, None) r2, st2)"
        by (simp add: c Inr o None r2)
      with Cons.prems(3) have eq: "st' = st2" "r = gen_append (out, None) r2" by simp_all
      from Cons.IH[OF step(1) ac r2] eq show ?thesis by (simp add: gen_append_def)
    qed
  qed
qed

lemma smi_merged_calls:
  assumes "calls_ok c0 seen st" "all_cached seen st"
    and "smi_merged_loop E kwargs xs G st = (r, st')"
  shows "calls_ok c0 (seen @ xs) st' \<and> ((\<exists>G'. r = Inr G') \<longrightarrow> all_cached (seen @ xs) st')"
  using assms
proof (induction xs arbitrary: seen st G r st')
  case Nil
  then show ?case by auto
next
  case (Cons x xs)
  obtain r1 st1 where c: "smi_conformers E kwargs x st = (r1, st1)"
    by (cases "smi_conformers E kwargs x st")
  note step = smi_conformers_step[OF Cons.prems(1,2) c]
  show ?case
  proof (cases r1)
    case (Inl e)
    with Cons.prems(3) c have "st' = st1" "r = Inl e" by auto
    with step(1) calls_ok_mono[of c0 "seen @ [x]" st1 xs] show ?thesis by simp
  next
    case (Inr mols)
    with step(2) have ac: "all_cached (seen @ [x]) st1" by blast
    show ?thesis
    proof (cases "fold_err (merge_graph kwargs) mols G")
      case (Inl err)
      with Cons.prems(3) c Inr have "st' = st1" "r = Inl err" by auto
      with step(1) calls_ok_mono[of c0 "seen @ [x]" st1 xs] show ?thesis by simp
    next
      case (Inr G1)
      with Cons.prems(3) c \<open>r1 = Inr mols\<close> have "smi_merged_loop E kwargs xs G1 st1 = (r, st')"
        by simp
      from Cons.IH[OF step(1) ac this] show ?thesis by simp
    qed
  qed
qed

lemma toy_convert:
  "convert_cached toy_env ''C'' \<lparr> cache = Map.empty, tool_calls = [] \<rparr> =
     (None, \<lparr> cache = [''C'' \<mapsto> ''carbon 1''], tool_calls = [''C''] \<rparr>)"
  by (simp add: convert_cached_def toy_env_def drop_warnings_def)

lemma toy_convert_cached:
  "convert_cached toy_env ''C'' \<lparr> cache = [''C'' \<mapsto> ''carbon 1''], tool_calls = cs \<rparr> =
     (None, \<lparr> cache = [''C'' \<mapsto> ''carbon 1''], tool_calls = cs \<rparr>)"
  by (simp add: convert_cached_def)

lemma toy_conformers:
  "generate_conformers toy_env ''carbon 1'' 0 = Inr [carbon ''1'']"
  by (simp add: generate_conformers_def toy_env_def)

lemma toy_yield:
  "yield_graph (small_options\<lparr>kw_n_conf := 0\<rparr>) (carbon ''1'') =
     ([\<lparr> g_info = Some ''C'', g_nodes = [carbon_node 0], g_edges = [] \<rparr>], None)"
  by (simp add: yield_graph_def carbon_graph3d_n len_graph_def)

lemma toy_smi_first:
  "smi_split toy_env (small_options\<lparr>kw_n_conf := 0\<rparr>) [''C'']
     \<lparr> cache = Map.empty, tool_calls = [] \<rparr> =
   (([\<lparr> g_info = Some ''C'', g_nodes = [carbon_node 0], g_edges = [] \<rparr>], None),
    \<lparr> cache = [''C'' \<mapsto> ''carbon 1''], tool_calls = [''C''] \<rparr>)"
  by (simp add: smi_conformers_def toy_convert toy_conformers toy_yield gen_append_def)

lemma toy_smi_again:
  "smi_split toy_env (small_options\<lparr>kw_n_conf := 0\<rparr>) [''C'']
     \<lparr> cache = [''C'' \<mapsto> ''carbon 1''], tool_calls = cs \<rparr> =
   (([\<lparr> g_info = Some ''C'', g_nodes = [carbon_node 0], g_edges = [] \<rparr>], None),
    \<lparr> cache = [''C'' \<mapsto> ''carbon 1''], tool_calls = cs \<rparr>)"
  by (simp add: smi_conformers_def toy_convert_cached toy_conformers toy_yield gen_append_def)

lemma toy_smi_twice:
  "smi_split toy_env (small_options\<lparr>kw_n_conf := 0\<rparr>) [''C'', ''C'']
     \<lparr> cache = Map.empty, tool_calls = [] \<rparr> =
   (([\<lparr> g_info = Some ''C'', g_nodes = [carbon_node 0], g_edges = [] \<rparr>,
      \<lparr> g_info = Some ''C'', g_nodes = [carbon_node 0], g_edges = [] \<rparr>], None),
    \<lparr> cache = [''C'' \<mapsto> ''carbon 1''], tool_calls = [''C''] \<rparr>)"
  by (subst smi_split.simps)
    (simp add: smi_conformers_def toy_convert toy_conformers toy_yield toy_smi_again
      gen_append_def del: smi_split.simps)

text \<open>
  Claim C9, as amended.  In the SMILES paths the cache is keyed by the record's text as it
  is; a conversion is run only for a record that is not in the cache, so no string is
  converted twice in a call and none that the starting cache holds; no entry of the
  starting cache is removed or changed, and every new entry comes from a conversion of the
  call; when the call ends without raising, every record is in the cache.  A call that is
  given a cache uses that one and leaves the function's default cache alone; a call that
  is given none starts with the default cache as the calls before it left it, and leaves
  its own entries there.
\<close>

theorem smiles_cache_lazy_never_evicted:
  "(let r = obabel_to_eden3d E iterable ''smi'' cff c0 sc kwargs in
      distinct (tool_calls (conv r)) \<and>
      set (tool_calls (conv r)) \<subseteq> set iterable - dom c0 \<and>
      c0 \<subseteq>\<^sub>m cache (conv r) \<and>
      dom (cache (conv r)) \<subseteq> dom c0 \<union> set (tool_calls (conv r)) \<and>
      (raised r = None \<longrightarrow> set iterable \<subseteq> dom (cache (conv r)))) \<and>
   call_obabel_to_eden3d ms E iterable ''smi'' cff (Some c0) sc kwargs =
     (obabel_to_eden3d E iterable ''smi'' cff c0 sc kwargs, ms) \<and>
   call_obabel_to_eden3d ms E iterable ''smi'' cff None sc kwargs =
     (obabel_to_eden3d E iterable ''smi'' cff (default_cache ms) sc kwargs,
      ms\<lparr>default_cache :=
           cache (conv (obabel_to_eden3d E iterable ''smi'' cff (default_cache ms) sc kwargs))\<rparr>)"
proof -
  let ?st = "\<lparr> cache = c0, tool_calls = [] \<rparr>"
  have i: "calls_ok c0 [] ?st" "all_cached [] ?st"
    by (simp_all add: calls_ok_def all_cached_def)
  have "\<exists>st'. conv (obabel_to_eden3d E iterable ''smi'' cff c0 sc kwargs) = st' \<and>
      calls_ok c0 iterable st' \<and>
      (raised (obabel_to_eden3d E iterable ''smi'' cff c0 sc kwargs) = None \<longrightarrow>
         all_cached iterable st')"
  proof (cases sc)
    case True
    obtain r st' where r: "smi_split E kwargs iterable ?st = (r, st')"
      by (cases "smi_split E kwargs iterable ?st")
    from smi_split_calls[OF i r] True r show ?thesis
      by (simp add: obabel_to_eden3d_def run_of_def Let_def)
  next
    case False
    obtain r st' where r: "smi_merged_loop E kwargs iterable empty_graph ?st = (r, st')"
      by (cases "smi_merged_loop E kwargs iterable empty_graph ?st")
    from smi_merged_calls[OF i r] False r show ?thesis
      by (cases r) (simp_all add: obabel_to_eden3d_def run_of_def Let_def yield_global_def)
  qed
  then have "let r = obabel_to_eden3d E iterable ''smi'' cff c0 sc kwargs in
      distinct (tool_calls (conv r)) \<and>
      set (tool_calls (conv r)) \<subseteq> set iterable - dom c0 \<and>
      c0 \<subseteq>\<^sub>m cache (conv r) \<and>
      dom (cache (conv r)) \<subseteq> dom c0 \<union> set (tool_calls (conv r)) \<and>
      (raised r = None \<longrightarrow> set iterable \<subseteq> dom (cache (conv r)))"
    by (simp add: Let_def calls_ok_def all_cached_def)
  then show ?thesis
    by (simp add: call_obabel_to_eden3d_def Let_def)
qed

theorem smiles_cache_lazy_never_evicted_witness:
  "raised (obabel_to_eden3d toy_env [''C'', ''C''] ''smi'' True Map.empty True
             (small_options\<lparr>kw_n_conf := 0\<rparr>)) = None \<and>
   tool_calls (conv (obabel_to_eden3d toy_env [''C'', ''C''] ''smi'' True Map.empty True
             (small_options\<lparr>kw_n_conf := 0\<rparr>))) = [''C''] \<and>
   set [''C'', ''C''] \<subseteq> dom (cache (conv (obabel_to_eden3d toy_env [''C'', ''C''] ''smi'' True
             Map.empty True (small_options\<lparr>kw_n_conf := 0\<rparr>))))"
proof -
  let ?r = "obabel_to_eden3d toy_env [''C'', ''C''] ''smi'' True Map.empty True
             (small_options\<lparr>kw_n_conf := 0\<rparr>)"
  have r: "raised ?r = None" "tool_calls (conv ?r) = [''C'']"
    by (simp_all add: obabel_to_eden3d_def run_of_def Let_def toy_smi_twice del: smi_split.simps)
  from smiles_cache_lazy_never_evicted
    [of toy_env "[''C'', ''C'']" True Map.empty True "small_options\<lparr>kw_n_conf := 0\<rparr>"
        initial_module]
  have "raised ?r = None \<longrightarrow> set [''C'', ''C''] \<subseteq> dom (cache (conv ?r))"
    by (simp add: Let_def)
  with r show ?thesis by blast
qed

text \<open>
  Claim C9 as stated fails on the cache's lifetime.  Two calls in a row, neither given a
  cache, on the one record \<^verbatim>\<open>C\<close>: the first converts the record and leaves the entry in
  the default cache; the second starts with that entry, not with an empty cache, and
  converts nothing.
\<close>

theorem default_cache_outlives_the_call_counterexample:
  "tool_calls (conv (fst (call_obabel_to_eden3d initial_module toy_env [''C''] ''smi'' True None
      True (small_options\<lparr>kw_n_conf := 0\<rparr>)))) = [''C''] \<and>
   default_cache (snd (call_obabel_to_eden3d initial_module toy_env [''C''] ''smi'' True None
      True (small_options\<lparr>kw_n_conf := 0\<rparr>))) ''C'' = Some ''carbon 1'' \<and>
   tool_calls (conv (fst (call_obabel_to_eden3d
      (snd (call_obabel_to_eden3d initial_module toy_env [''C''] ''smi'' True None
         True (small_options\<lparr>kw_n_conf := 0\<rparr>)))
      toy_env [''C''] ''smi'' True None True (small_options\<lparr>kw_n_conf := 0\<rparr>)))) = [] \<and>
   raised (fst (call_obabel_to_eden3d
      (snd (call_obabel_to_eden3d initial_module toy_env [''C''] ''smi'' True None
         True (small_options\<lparr>kw_n_conf := 0\<rparr>)))
      toy_env [''C''] ''smi'' True None True (small_options\<lparr>kw_n_conf := 0\<rparr>))) = None"
proof -
  let ?o = "small_options\<lparr>kw_n_conf := 0\<rparr>"
  have first: "call_obabel_to_eden3d initial_module toy_env [''C''] ''smi'' True None True ?o =
      (\<lparr> yielded = [\<lparr> g_info = Some ''C'', g_nodes = [carbon_node 0], g_edges = [] \<rparr>],
         raised = None,
         conv = \<lparr> cache = [''C'' \<mapsto> ''carbon 1''], tool_calls = [''C''] \<rparr> \<rparr>,
       \<lparr> default_cache = [''C'' \<mapsto> ''carbon 1''] \<rparr>)"
    by (simp add: call_obabel_to_eden3d_def initial_module_def obabel_to_eden3d_def run_of_def
        Let_def toy_smi_first del: smi_split.simps)
  have second: "call_obabel_to_eden3d \<lparr> default_cache = [''C'' \<mapsto> ''carbon 1''] \<rparr>
        toy_env [''C''] ''smi'' True None True ?o =
      (\<lparr> yielded = [\<lparr> g_info = Some ''C'', g_nodes = [carbon_node 0], g_edges = [] \<rparr>],
         raised = None,
         conv = \<lparr> cache = [''C'' \<mapsto> ''carbon 1''], tool_calls = [] \<rparr> \<rparr>,
       \<lparr> default_cache = [''C'' \<mapsto> ''carbon 1''] \<rparr>)"
    by (simp add: call_obabel_to_eden3d_def obabel_to_eden3d_def run_of_def Let_def toy_smi_again
        del: smi_split.simps)
  show ?thesis by (simp add: first second)
qed

section \<open>The cap on the conformers of a group\<close>














end
